theory Spec2Isabelle
  imports Main
begin

section \<open>Subscription lifecycle and billing synchronisation\<close>

text \<open>
  A shallow embedding of \<^verbatim>\<open>SubscriptionsService\<close> (the subscription lifecycle manager) and of
  the collaborators it calls. The service is written against three stateful systems: the
  relational datastore (tables \<^verbatim>\<open>subscriptions\<close>, \<^verbatim>\<open>stripe_customers\<close> and \<^verbatim>\<open>plans\<close>), the
  billing gateway (the Stripe client) and the clock. Every \<^verbatim>\<open>async\<close> method becomes a function
  from a world to a result and a new world; a thrown exception is the \<open>Inl\<close> result, and the world
  is returned with it, because an exception does not undo the calls made before it.
\<close>

subsection \<open>JavaScript values\<close>

text \<open>
  \<^verbatim>\<open>Record<string, any>\<close>: an object is a map from keys to values. The metadata column is
  \<^verbatim>\<open>JSONB\<close>, which keeps no key order, so objects are compared as maps.
\<close>

datatype js = JUndefined | JNull | JBool bool | JNum int | JStr string
  | JArr "js list" | JObj "string \<Rightarrow> js option"

type_synonym obj = "string \<Rightarrow> js option"

text \<open>A timestamp is the instant that an ISO-8601 string denotes, in milliseconds since the epoch
  (what \<^verbatim>\<open>Date.prototype.getTime\<close> returns); the columns are \<^verbatim>\<open>TIMESTAMPTZ\<close>.\<close>

type_synonym timestamp = int

definition truthy :: "string option \<Rightarrow> bool" where
  "truthy s = (case s of None \<Rightarrow> False | Some x \<Rightarrow> x \<noteq> [])"

definition coalesce :: "'a option \<Rightarrow> 'a option \<Rightarrow> 'a option" where
  "coalesce a b = (case a of Some x \<Rightarrow> Some x | None \<Rightarrow> b)"

definition nullish :: "js option \<Rightarrow> bool" where
  "nullish v = (v = None \<or> v = Some JUndefined \<or> v = Some JNull)"

fun string_of_nat :: "nat \<Rightarrow> string" where
  "string_of_nat n =
     (if n < 10 then [char_of (48 + n)]
      else string_of_nat (n div 10) @ [char_of (48 + n mod 10)])"

text \<open>Object spread \<^verbatim>\<open>{ ...v }\<close>: the own enumerable properties of \<open>v\<close>.\<close>

definition spread :: "js \<Rightarrow> obj" where
  "spread v =
     (case v of
        JObj m \<Rightarrow> m
      | JArr xs \<Rightarrow> map_of (zip (map string_of_nat [0..<length xs]) xs)
      | JStr s \<Rightarrow> map_of (zip (map string_of_nat [0..<length s]) (map (\<lambda>c. JStr [c]) s))
      | _ \<Rightarrow> Map.empty)"

text \<open>What \<^verbatim>\<open>JSON.stringify\<close> sends to the datastore: a property whose value is
  \<^verbatim>\<open>undefined\<close> is left out of an object and becomes \<^verbatim>\<open>null\<close> in an array.\<close>

definition drop_undefined :: "obj \<Rightarrow> obj" where
  "drop_undefined m = (\<lambda>k. case m k of Some JUndefined \<Rightarrow> None | v \<Rightarrow> v)"

definition undefined_to_null :: "js \<Rightarrow> js" where
  "undefined_to_null v = (if v = JUndefined then JNull else v)"

primrec stringify :: "js \<Rightarrow> js" where
  "stringify JUndefined = JUndefined"
| "stringify JNull = JNull"
| "stringify (JBool b) = JBool b"
| "stringify (JNum n) = JNum n"
| "stringify (JStr s) = JStr s"
| "stringify (JArr xs) = JArr (map undefined_to_null (map stringify xs))"
| "stringify (JObj m) = JObj (drop_undefined (\<lambda>k. map_option stringify (m k)))"

subsection \<open>Entities\<close>

datatype subscriptionStatus =
  Active | Trialing | PastDue | Paused | Canceled | Expired
  | Incomplete | IncompleteExpired | Unpaid

text \<open>A row of \<^verbatim>\<open>subscriptions\<close> (class \<^verbatim>\<open>Subscription\<close>); \<open>row_id\<close> is its column \<^verbatim>\<open>id\<close>.\<close>

record subscription =
  row_id :: string
  created_at :: timestamp
  user_id :: string
  plan :: "string option"
  plan_id :: "string option"
  stripe_subscription_id :: "string option"
  stripe_customer_id :: "string option"
  status :: subscriptionStatus
  started_at :: "timestamp option"
  current_period_start :: "timestamp option"
  current_period_end :: "timestamp option"
  ended_at :: "timestamp option"
  cancel_at :: "timestamp option"
  canceled_at :: "timestamp option"
  stripe_invoice_url :: "string option"
  pause_reason :: "string option"
  cancel_reason :: "string option"
  metadata :: js
  last_event_at :: "timestamp option"

text \<open>A row of \<^verbatim>\<open>stripe_customers\<close> (interface \<^verbatim>\<open>CustomerRecord\<close>).\<close>

record customerRecord =
  cr_id :: string
  cr_user_id :: string
  cr_stripe_customer_id :: string
  cr_email :: "string option"
  cr_metadata :: js
  cr_created_at :: timestamp
  cr_updated_at :: timestamp

text \<open>A row of \<^verbatim>\<open>plans\<close> (class \<^verbatim>\<open>Plan\<close>); the service reads its id, name and price id.\<close>

record planEntity =
  p_id :: string
  p_name :: string
  p_stripe_product_id :: string
  p_stripe_price_id :: string
  p_is_active :: bool

text \<open>
  The object given to \<^verbatim>\<open>.update(...)\<close> and \<^verbatim>\<open>.insert([...])\<close>: one optional entry per column.
  \<open>None\<close> is a key that is absent, \<open>Some v\<close> a key that is written (for a nullable column
  \<open>Some None\<close> writes \<^verbatim>\<open>null\<close>). No call site of the service stores \<^verbatim>\<open>undefined\<close> under a key,
  so \<^verbatim>\<open>sanitizePayload\<close>, which deletes such keys, leaves every object built here as it is.
\<close>

record updates =
  set_user_id :: "string option"
  set_plan :: "string option option"
  set_plan_id :: "string option option"
  set_stripe_subscription_id :: "string option option"
  set_stripe_customer_id :: "string option option"
  set_status :: "subscriptionStatus option"
  set_started_at :: "timestamp option option"
  set_current_period_start :: "timestamp option option"
  set_current_period_end :: "timestamp option option"
  set_ended_at :: "timestamp option option"
  set_cancel_at :: "timestamp option option"
  set_canceled_at :: "timestamp option option"
  set_stripe_invoice_url :: "string option option"
  set_pause_reason :: "string option option"
  set_cancel_reason :: "string option option"
  set_metadata :: "js option"
  set_last_event_at :: "timestamp option option"

definition no_updates :: updates where
  "no_updates = \<lparr> set_user_id = None, set_plan = None, set_plan_id = None,
     set_stripe_subscription_id = None, set_stripe_customer_id = None, set_status = None,
     set_started_at = None, set_current_period_start = None, set_current_period_end = None,
     set_ended_at = None, set_cancel_at = None, set_canceled_at = None,
     set_stripe_invoice_url = None, set_pause_reason = None, set_cancel_reason = None,
     set_metadata = None, set_last_event_at = None \<rparr>"

definition has_key :: "'a option \<Rightarrow> nat" where
  "has_key v = (case v of None \<Rightarrow> 0 | Some _ \<Rightarrow> 1)"

text \<open>\<^verbatim>\<open>Object.keys(updates).length\<close>\<close>

definition keys_length :: "updates \<Rightarrow> nat" where
  "keys_length u =
     has_key (set_user_id u) + has_key (set_plan u) + has_key (set_plan_id u)
     + has_key (set_stripe_subscription_id u) + has_key (set_stripe_customer_id u)
     + has_key (set_status u) + has_key (set_started_at u)
     + has_key (set_current_period_start u) + has_key (set_current_period_end u)
     + has_key (set_ended_at u) + has_key (set_cancel_at u) + has_key (set_canceled_at u)
     + has_key (set_stripe_invoice_url u) + has_key (set_pause_reason u)
     + has_key (set_cancel_reason u) + has_key (set_metadata u)
     + has_key (set_last_event_at u)"

definition put :: "'a option \<Rightarrow> 'a \<Rightarrow> 'a" where
  "put v old = (case v of None \<Rightarrow> old | Some x \<Rightarrow> x)"

text \<open>What the datastore does to one row under \<^verbatim>\<open>UPDATE ... SET\<close>: the columns named in the
  object are replaced, the others are kept. The metadata object travels as JSON.\<close>

definition apply_updates :: "updates \<Rightarrow> subscription \<Rightarrow> subscription" where
  "apply_updates u r =
     r \<lparr> user_id := put (set_user_id u) (user_id r),
         plan := put (set_plan u) (plan r),
         plan_id := put (set_plan_id u) (plan_id r),
         stripe_subscription_id := put (set_stripe_subscription_id u) (stripe_subscription_id r),
         stripe_customer_id := put (set_stripe_customer_id u) (stripe_customer_id r),
         status := put (set_status u) (status r),
         started_at := put (set_started_at u) (started_at r),
         current_period_start := put (set_current_period_start u) (current_period_start r),
         current_period_end := put (set_current_period_end u) (current_period_end r),
         ended_at := put (set_ended_at u) (ended_at r),
         cancel_at := put (set_cancel_at u) (cancel_at r),
         canceled_at := put (set_canceled_at u) (canceled_at r),
         stripe_invoice_url := put (set_stripe_invoice_url u) (stripe_invoice_url r),
         pause_reason := put (set_pause_reason u) (pause_reason r),
         cancel_reason := put (set_cancel_reason u) (cancel_reason r),
         metadata := put (map_option stringify (set_metadata u)) (metadata r),
         last_event_at := put (set_last_event_at u) (last_event_at r) \<rparr>"

subsection \<open>What the billing gateway returns\<close>

record stripe_price =
  price_id :: string
  nickname :: "string option"

record stripe_item =
  item_id :: string
  item_price :: "stripe_price option"

record stripe_invoice =
  hosted_invoice_url :: "string option"
  invoice_pdf :: "string option"

text \<open>\<^verbatim>\<open>string | Stripe.Invoice\<close>: a reference id, or the expanded object.\<close>

datatype 'a expandable = Unexpanded string | Expanded 'a

text \<open>\<^verbatim>\<open>subscription.customer\<close>: an id, or a customer object (whose id the code reads with
  \<^verbatim>\<open>?.id\<close>).\<close>

datatype customer_ref = CustomerId string | CustomerObject "string option"

record pause_collection =
  behavior :: string

record stripe_subscription =
  stripe_id :: string
  stripe_customer :: "customer_ref option"
  stripe_metadata :: "(string \<Rightarrow> string option) option"
  stripe_items :: "stripe_item list"
  stripe_latest_invoice :: "stripe_invoice expandable option"
  stripe_status :: string
  stripe_pause_collection :: "pause_collection option"
  stripe_start_date :: "int option"
  stripe_current_period_start :: "int option"
  stripe_current_period_end :: "int option"
  stripe_ended_at :: "int option"
  stripe_cancel_at :: "int option"
  stripe_canceled_at :: "int option"

record stripe_customer_object =
  sc_id :: string
  sc_email :: "string option"
  sc_metadata :: "obj option"


subsection \<open>Calls to the billing gateway and to the datastore\<close>

record subscriptionCreateParams =
  cp_customer :: string
  cp_price :: string
  cp_trial_period_days :: "int option"
  cp_metadata :: obj

record subscriptionUpdateParams =
  up_items :: "(string \<times> string) list option"
  up_metadata :: "obj option"
  up_pause_collection :: "pause_collection option option"

record customerCreateParams =
  cc_email :: "string option"
  cc_name :: "string option"
  cc_metadata :: obj

text \<open>Every request the repository sends to the gateway, as it is logged in the world.\<close>

datatype stripe_call =
  SubscriptionsCreate subscriptionCreateParams
  | SubscriptionsRetrieve string
  | SubscriptionsUpdate string subscriptionUpdateParams
  | SubscriptionsCancel string bool bool
  | InvoicesRetrieve string
  | CustomersCreate customerCreateParams
  | CustomersUpdate string string

datatype table_name = subscriptions_table | stripe_customers_table | plans_table

datatype db_op = DbSelect table_name | DbInsert table_name | DbUpdate table_name
  | DbDelete table_name

datatype error =
  BadRequestException string
  | ForbiddenException string
  | NotFoundException string
  | InternalServerErrorException string
  | StripeError string
  | RangeError

record world =
  subscriptions :: "subscription list"
  stripe_customers :: "customerRecord list"
  stripe_calls :: "stripe_call list"
  db_ops :: "db_op list"
  uuid_count :: nat
  ticks :: nat

text \<open>
  What the service cannot decide: the answers of the gateway (\<open>Inl\<close> is the message of the
  error the client throws), the plan catalogue, which writes the datastore refuses (by the
  position of the operation in the log; \<open>Some\<close> is the error message), the identifiers and
  the times it hands out. Reads of the datastore are answered from the tables.
\<close>

record env =
  plans :: "planEntity list"
  api_subscriptions_create :: "subscriptionCreateParams \<Rightarrow> string + stripe_subscription"
  api_subscriptions_retrieve :: "string \<Rightarrow> string + stripe_subscription"
  api_subscriptions_update ::
    "string \<Rightarrow> subscriptionUpdateParams \<Rightarrow> string + stripe_subscription"
  api_subscriptions_cancel :: "string \<Rightarrow> string + stripe_subscription"
  api_invoices_retrieve :: "string \<Rightarrow> string + stripe_invoice"
  api_customers_create :: "customerCreateParams \<Rightarrow> string + stripe_customer_object"
  api_customers_update :: "string \<Rightarrow> string \<Rightarrow> string + unit"
  auth_user_email :: "string \<Rightarrow> string option"
  db_refuses :: "nat \<Rightarrow> string option"
  gen_random_uuid :: "nat \<Rightarrow> string"
  clock :: "nat \<Rightarrow> timestamp"

type_synonym 'a io = "world \<Rightarrow> (error + 'a) \<times> world"

definition io_return :: "'a \<Rightarrow> 'a io" where
  "io_return x = (\<lambda>w. (Inr x, w))"

definition io_throw :: "error \<Rightarrow> 'a io" where
  "io_throw e = (\<lambda>w. (Inl e, w))"

definition io_bind :: "'a io \<Rightarrow> ('a \<Rightarrow> 'b io) \<Rightarrow> 'b io" where
  "io_bind m f = (\<lambda>w. case m w of (Inl e, w') \<Rightarrow> (Inl e, w') | (Inr x, w') \<Rightarrow> f x w')"

text \<open>\<^verbatim>\<open>try { ... } catch { return d }\<close>\<close>

definition io_catch :: "'a io \<Rightarrow> 'a \<Rightarrow> 'a io" where
  "io_catch m d = (\<lambda>w. case m w of (Inl e, w') \<Rightarrow> (Inr d, w') | (Inr x, w') \<Rightarrow> (Inr x, w'))"

text \<open>\<^verbatim>\<open>new Date().toISOString()\<close>\<close>

definition now :: "env \<Rightarrow> timestamp io" where
  "now e = (\<lambda>w. (Inr (clock e (ticks w)), w\<lparr>ticks := Suc (ticks w)\<rparr>))"

definition stripe_request :: "stripe_call \<Rightarrow> string + 'a \<Rightarrow> 'a io" where
  "stripe_request c answer =
     (\<lambda>w. let w' = w\<lparr>stripe_calls := stripe_calls w @ [c]\<rparr>
          in case answer of Inl msg \<Rightarrow> (Inl (StripeError msg), w') | Inr x \<Rightarrow> (Inr x, w'))"

definition db_select :: "table_name \<Rightarrow> (world \<Rightarrow> 'a) \<Rightarrow> 'a io" where
  "db_select t q = (\<lambda>w. (Inr (q w), w\<lparr>db_ops := db_ops w @ [DbSelect t]\<rparr>))"

text \<open>A write gives back the \<^verbatim>\<open>error\<close> of the response: \<open>None\<close> when the datastore did it.\<close>

definition db_write :: "env \<Rightarrow> db_op \<Rightarrow> (world \<Rightarrow> world) \<Rightarrow> string option io" where
  "db_write e op f =
     (\<lambda>w. let w' = w\<lparr>db_ops := db_ops w @ [op]\<rparr>
          in case db_refuses e (length (db_ops w)) of
               Some msg \<Rightarrow> (Inr (Some msg), w')
             | None \<Rightarrow> (Inr None, f w'))"

text \<open>\<^verbatim>\<open>.maybeSingle()\<close> gives the row when exactly one matches and \<^verbatim>\<open>null\<close> otherwise;
  \<^verbatim>\<open>.single()\<close> gives the same data, with an error unless exactly one row matches.\<close>

definition maybeSingle :: "'a list \<Rightarrow> 'a option" where
  "maybeSingle rows = (case rows of [r] \<Rightarrow> Some r | _ \<Rightarrow> None)"

definition by_id :: "string \<Rightarrow> world \<Rightarrow> subscription option" where
  "by_id i w = maybeSingle (filter (\<lambda>r. row_id r = i) (subscriptions w))"

definition by_stripe_subscription_id :: "string \<Rightarrow> world \<Rightarrow> subscription option" where
  "by_stripe_subscription_id stripeId w =
     maybeSingle (filter (\<lambda>r. stripe_subscription_id r = Some stripeId) (subscriptions w))"

definition customer_mapping_user :: "string \<Rightarrow> world \<Rightarrow> string option" where
  "customer_mapping_user customerId w =
     map_option cr_user_id
       (maybeSingle (filter (\<lambda>c. cr_stripe_customer_id c = customerId) (stripe_customers w)))"

definition update_rows :: "updates \<Rightarrow> string \<Rightarrow> world \<Rightarrow> world" where
  "update_rows u i w =
     w\<lparr>subscriptions := map (\<lambda>r. if row_id r = i then apply_updates u r else r) (subscriptions w)\<rparr>"

text \<open>The row that \<^verbatim>\<open>INSERT\<close> makes: the column defaults of the migrations, then the object.\<close>

definition default_row :: "string \<Rightarrow> timestamp \<Rightarrow> string \<Rightarrow> subscription" where
  "default_row i t u =
     \<lparr> row_id = i, created_at = t, user_id = u, plan = None, plan_id = None,
       stripe_subscription_id = None, stripe_customer_id = None, status = Active,
       started_at = Some t, current_period_start = None, current_period_end = None,
       ended_at = None, cancel_at = None, canceled_at = None, stripe_invoice_url = None,
       pause_reason = None, cancel_reason = None, metadata = JObj Map.empty,
       last_event_at = Some t \<rparr>"

definition insert_row :: "env \<Rightarrow> updates \<Rightarrow> string \<Rightarrow> world \<Rightarrow> world" where
  "insert_row e u uid w =
     w\<lparr>subscriptions := subscriptions w @
          [apply_updates u (default_row (gen_random_uuid e (uuid_count w)) (clock e (ticks w)) uid)],
       uuid_count := Suc (uuid_count w), ticks := Suc (ticks w)\<rparr>"

text \<open>\<^verbatim>\<open>user_id\<close> is \<^verbatim>\<open>NOT NULL\<close> and has no default: an object without it is refused.\<close>

definition insert_subscription :: "env \<Rightarrow> updates \<Rightarrow> string option io" where
  "insert_subscription e u =
     (case set_user_id u of
        None \<Rightarrow> db_write e (DbInsert subscriptions_table) (\<lambda>w. w)
        | Some uid \<Rightarrow> db_write e (DbInsert subscriptions_table) (insert_row e u uid))"

definition delete_rows :: "string \<Rightarrow> world \<Rightarrow> world" where
  "delete_rows i w = w\<lparr>subscriptions := filter (\<lambda>r. row_id r \<noteq> i) (subscriptions w)\<rparr>"

subsection \<open>Helpers of the service\<close>

definition ACTIVE_STATUSES :: "subscriptionStatus list" where
  "ACTIVE_STATUSES = [Active, Trialing, PastDue, Unpaid, Incomplete]"

definition is_hex :: "char \<Rightarrow> bool" where
  "is_hex c = (c \<in> set ''0123456789abcdefABCDEF'')"

definition uuid_char_ok :: "nat \<Rightarrow> char \<Rightarrow> bool" where
  "uuid_char_ok i c =
     (if i = 8 \<or> i = 13 \<or> i = 18 \<or> i = 23 then c = CHR ''-''
      else if i = 14 then c \<in> set ''12345''
      else if i = 19 then c \<in> set ''89abAB''
      else is_hex c)"

text \<open>The regular expression
  \<^verbatim>\<open>/^[0-9a-f]{8}-[0-9a-f]{4}-[1-5][0-9a-f]{3}-[89ab][0-9a-f]{3}-[0-9a-f]{12}$/i\<close>\<close>

definition isValidUUID :: "string \<Rightarrow> bool" where
  "isValidUUID uuid = (length uuid = 36 \<and> list_all (\<lambda>(i, c). uuid_char_ok i c) (zip [0..<36] uuid))"

definition ensureAccess :: "subscription \<Rightarrow> string \<Rightarrow> bool \<Rightarrow> unit io" where
  "ensureAccess sub requesterId isAdmin =
     (if isAdmin then io_return ()
      else if user_id sub \<noteq> requesterId
      then io_throw (ForbiddenException ''You are not allowed to access this subscription'')
      else io_return ())"

definition getById :: "string \<Rightarrow> subscription io" where
  "getById i =
     (if \<not> isValidUUID i then io_throw (BadRequestException ''Invalid subscription identifier'')
      else io_bind (db_select subscriptions_table (by_id i))
             (\<lambda>data. case data of
                 None \<Rightarrow> io_throw (NotFoundException
                           (''Subscription with id '' @ [CHR 0x22] @ i @ [CHR 0x22] @ '' not found''))
               | Some r \<Rightarrow> io_return r))"

definition findByStripeSubscriptionId :: "string \<Rightarrow> subscription option io" where
  "findByStripeSubscriptionId stripeId =
     db_select subscriptions_table (by_stripe_subscription_id stripeId)"

definition blocking_rows :: "string \<Rightarrow> world \<Rightarrow> subscription list" where
  "blocking_rows userId w =
     take 1 (filter (\<lambda>r. user_id r = userId \<and> status r \<in> set (ACTIVE_STATUSES @ [Paused]))
               (subscriptions w))"

definition ensureUserCanStartNew :: "string \<Rightarrow> unit io" where
  "ensureUserCanStartNew userId =
     io_bind (db_select subscriptions_table (blocking_rows userId))
       (\<lambda>data. if length data > 0
                then io_throw (BadRequestException
                                 ''An active subscription already exists for this user'')
                else io_return ())"

text \<open>\<^verbatim>\<open>PlansService.findOne\<close> and \<^verbatim>\<open>PlansService.findByStripePrice\<close>\<close>

definition plans_findOne :: "env \<Rightarrow> string \<Rightarrow> planEntity io" where
  "plans_findOne e i =
     io_bind (db_select plans_table (\<lambda>w. maybeSingle (filter (\<lambda>p. p_id p = i) (plans e))))
       (\<lambda>data. case data of
           None \<Rightarrow> io_throw (NotFoundException
                     (''Plan with id '' @ [CHR 0x22] @ i @ [CHR 0x22] @ '' not found''))
         | Some p \<Rightarrow> io_return p)"

definition plan_by_price :: "env \<Rightarrow> string \<Rightarrow> planEntity option" where
  "plan_by_price e priceId = maybeSingle (filter (\<lambda>p. p_stripe_price_id p = priceId) (plans e))"

definition plans_findByStripePrice :: "env \<Rightarrow> string \<Rightarrow> planEntity option io" where
  "plans_findByStripePrice e priceId = db_select plans_table (\<lambda>w. plan_by_price e priceId)"


definition nullish_or :: "js option \<Rightarrow> js \<Rightarrow> js" where
  "nullish_or v d = (if nullish v then d else (case v of Some x \<Rightarrow> x | None \<Rightarrow> d))"

text \<open>\<^verbatim>\<open>Stripe.Metadata\<close> (strings under string keys) as an object.\<close>

definition metadata_obj :: "(string \<Rightarrow> string option) \<Rightarrow> obj" where
  "metadata_obj sm = (\<lambda>k. map_option JStr (sm k))"

definition mergeMetadata ::
  "js option \<Rightarrow> obj option \<Rightarrow> (string \<Rightarrow> string option) option \<Rightarrow> js" where
  "mergeMetadata existing custom stripeMetadata =
     (let metadata0 = (case existing of Some (JObj m) \<Rightarrow> m | _ \<Rightarrow> Map.empty);
          metadata1 =
            (case custom of
               None \<Rightarrow> metadata0
             | Some c \<Rightarrow>
                 if c \<noteq> Map.empty
                 then metadata0(''custom'' \<mapsto>
                        JObj (spread (nullish_or (metadata0 ''custom'') (JObj Map.empty)) ++ c))
                 else metadata0);
          stripe =
            (case stripeMetadata of
               Some sm \<Rightarrow> JObj (metadata_obj sm)
             | None \<Rightarrow> nullish_or (metadata1 ''stripe'') (JObj Map.empty))
      in JObj (metadata1(''stripe'' \<mapsto> stripe)))"

text \<open>
  \<^verbatim>\<open>convertTimestamp\<close>: seconds to the instant, \<^verbatim>\<open>null\<close> for a falsy value.
  \<^verbatim>\<open>toISOString\<close> throws a \<^verbatim>\<open>RangeError\<close> for an instant more than 8.64e15 ms from the epoch.
\<close>

definition convertTimestamp :: "int option \<Rightarrow> timestamp option" where
  "convertTimestamp v =
     (case v of None \<Rightarrow> None | Some n \<Rightarrow> if n = 0 then None else Some (n * 1000))"

definition in_date_range :: "int option \<Rightarrow> bool" where
  "in_date_range v =
     (case v of None \<Rightarrow> True | Some n \<Rightarrow> n = 0 \<or> \<bar>n * 1000\<bar> \<le> 8640000000000000)"

definition mapStripeStatus :: "stripe_subscription \<Rightarrow> subscriptionStatus" where
  "mapStripeStatus sub =
     (if stripe_pause_collection sub \<noteq> None then Paused
      else if stripe_status sub = ''active'' then Active
      else if stripe_status sub = ''trialing'' then Trialing
      else if stripe_status sub = ''past_due'' then PastDue
      else if stripe_status sub = ''canceled'' then Canceled
      else if stripe_status sub = ''incomplete'' then Incomplete
      else if stripe_status sub = ''incomplete_expired'' then IncompleteExpired
      else if stripe_status sub = ''unpaid'' then Unpaid
      else Expired)"

definition invoice_url :: "stripe_invoice \<Rightarrow> string option" where
  "invoice_url invoice = coalesce (hosted_invoice_url invoice) (invoice_pdf invoice)"

definition extractInvoiceUrl :: "env \<Rightarrow> stripe_subscription \<Rightarrow> string option io" where
  "extractInvoiceUrl e sub =
     (case stripe_latest_invoice sub of
        None \<Rightarrow> io_return None
      | Some (Unexpanded i) \<Rightarrow>
          if i = [] then io_return None
          else io_catch
                 (io_bind (stripe_request (InvoicesRetrieve i) (api_invoices_retrieve e i))
                    (\<lambda>invoice. io_return (invoice_url invoice)))
                 None
      | Some (Expanded invoice) \<Rightarrow> io_return (invoice_url invoice))"

subsection \<open>Reconciliation\<close>

text \<open>\<^verbatim>\<open>subscription.customer\<close> as an id (lines 760-763 of the service).\<close>

definition stripeCustomerId :: "stripe_subscription \<Rightarrow> string option" where
  "stripeCustomerId sub =
     (case stripe_customer sub of
        None \<Rightarrow> None
      | Some (CustomerId c) \<Rightarrow> Some c
      | Some (CustomerObject c) \<Rightarrow> c)"

definition metadata_user_id :: "stripe_subscription \<Rightarrow> string option" where
  "metadata_user_id sub = (case stripe_metadata sub of None \<Rightarrow> None | Some m \<Rightarrow> m ''user_id'')"

text \<open>The owner of the subscription (lines 771-784): the row already stored, else the customer
  mapping, else the hint in the metadata of the snapshot.\<close>

definition resolveUserId ::
  "stripe_subscription \<Rightarrow> subscription option \<Rightarrow> string \<Rightarrow> string option io" where
  "resolveUserId sub existing customerId =
     io_bind
       (if truthy (map_option user_id existing) then io_return (map_option user_id existing)
        else db_select stripe_customers_table (customer_mapping_user customerId))
       (\<lambda>userId.
          if \<not> truthy userId \<and> truthy (metadata_user_id sub)
          then io_return (metadata_user_id sub)
          else io_return userId)"

definition first_price :: "stripe_subscription \<Rightarrow> stripe_price option" where
  "first_price sub = (case stripe_items sub of [] \<Rightarrow> None | item # _ \<Rightarrow> item_price item)"

text \<open>The object written by reconciliation (lines 804-835), with the correction of
  \<^verbatim>\<open>canceled_at\<close> for a canceled subscription.\<close>

definition syncPayload ::
  "stripe_subscription \<Rightarrow> subscription option \<Rightarrow> string \<Rightarrow> string \<Rightarrow> planEntity option
     \<Rightarrow> string option \<Rightarrow> js \<Rightarrow> timestamp \<Rightarrow> updates" where
  "syncPayload sub existing userId customerId plan' invoiceUrl metadata' nowIso =
     (let payload =
        \<lparr> set_user_id = Some userId,
          set_plan = Some (coalesce (map_option p_name plan')
                        (coalesce (Option.bind existing plan)
                           (Option.bind (first_price sub) nickname))),
          set_plan_id = Some (coalesce (map_option p_id plan') (Option.bind existing plan_id)),
          set_stripe_subscription_id = Some (Some (stripe_id sub)),
          set_stripe_customer_id = Some (Some customerId),
          set_status = Some (mapStripeStatus sub),
          set_started_at = Some (convertTimestamp (stripe_start_date sub)),
          set_current_period_start = Some (convertTimestamp (stripe_current_period_start sub)),
          set_current_period_end = Some (convertTimestamp (stripe_current_period_end sub)),
          set_ended_at = Some (convertTimestamp (stripe_ended_at sub)),
          set_cancel_at = Some (convertTimestamp (stripe_cancel_at sub)),
          set_canceled_at = Some (convertTimestamp (stripe_canceled_at sub)),
          set_stripe_invoice_url =
            Some (coalesce invoiceUrl (Option.bind existing stripe_invoice_url)),
          set_pause_reason = Some (map_option behavior (stripe_pause_collection sub)),
          set_cancel_reason = None,
          set_metadata = Some metadata',
          set_last_event_at = Some (Some nowIso) \<rparr>
      in if stripe_status sub = ''canceled'' \<and> set_canceled_at payload = Some None
            \<and> convertTimestamp (stripe_ended_at sub) \<noteq> None
         then payload\<lparr>set_canceled_at := Some (convertTimestamp (stripe_ended_at sub))\<rparr>
         else payload)"

text \<open>The plan of the first line item (lines 792-795).\<close>

definition findPlanOfFirstItem :: "env \<Rightarrow> stripe_subscription \<Rightarrow> planEntity option io" where
  "findPlanOfFirstItem e sub =
     (case first_price sub of
        None \<Rightarrow> io_return None
      | Some price \<Rightarrow>
          if price_id price = [] then io_return None
          else plans_findByStripePrice e (price_id price))"

text \<open>The write (lines 839-862): an update of the row found by its id, else an insert.\<close>

definition upsert :: "env \<Rightarrow> subscription option \<Rightarrow> updates \<Rightarrow> unit io" where
  "upsert e existing payload =
     (case (case existing of
              None \<Rightarrow> None
            | Some ex \<Rightarrow> if row_id ex \<noteq> [] then Some (row_id ex) else None) of
        Some i \<Rightarrow>
          io_bind (db_write e (DbUpdate subscriptions_table) (update_rows payload i))
            (\<lambda>error. case error of
                Some msg \<Rightarrow> io_throw (InternalServerErrorException
                              (''Failed to update subscription: '' @ msg))
              | None \<Rightarrow> io_return ())
      | None \<Rightarrow>
          io_bind (insert_subscription e payload)
            (\<lambda>error. case error of
                Some msg \<Rightarrow> io_throw (InternalServerErrorException
                              (''Failed to insert subscription: '' @ msg))
              | None \<Rightarrow> io_return ()))"

definition stripe_metadata_or_empty :: "stripe_subscription \<Rightarrow> (string \<Rightarrow> string option)" where
  "stripe_metadata_or_empty sub = (case stripe_metadata sub of None \<Rightarrow> Map.empty | Some m \<Rightarrow> m)"

definition syncFromStripe :: "env \<Rightarrow> stripe_subscription \<Rightarrow> obj \<Rightarrow> unit io" where
  "syncFromStripe e sub customMetadata =
     io_bind (findByStripeSubscriptionId (stripe_id sub)) (\<lambda>existing.
       case stripeCustomerId sub of
         None \<Rightarrow> io_return ()
       | Some customerId \<Rightarrow>
           if customerId = [] then io_return ()
           else
     io_bind (resolveUserId sub existing customerId) (\<lambda>resolved.
       case resolved of
         None \<Rightarrow> io_return ()
       | Some userId \<Rightarrow>
           if userId = [] then io_return ()
           else
     io_bind (findPlanOfFirstItem e sub) (\<lambda>plan'.
     io_bind (extractInvoiceUrl e sub) (\<lambda>invoiceUrl.
       if \<not> (in_date_range (stripe_start_date sub)
             \<and> in_date_range (stripe_current_period_start sub)
             \<and> in_date_range (stripe_current_period_end sub)
             \<and> in_date_range (stripe_ended_at sub)
             \<and> in_date_range (stripe_cancel_at sub)
             \<and> in_date_range (stripe_canceled_at sub))
       then io_throw RangeError
       else
     io_bind (now e) (\<lambda>nowIso.
       upsert e existing
         (syncPayload sub existing userId customerId plan' invoiceUrl
            (mergeMetadata (map_option metadata existing) (Some customMetadata)
               (Some (stripe_metadata_or_empty sub)))
            nowIso))))))"

subsection \<open>Requests\<close>

text \<open>
  An optional property is \<open>None\<close> when it is absent. Where the service tells \<^verbatim>\<open>undefined\<close> from
  \<^verbatim>\<open>null\<close> (\<^verbatim>\<open>!== undefined\<close>), the property has two layers: \<open>Some None\<close> is \<^verbatim>\<open>null\<close>.
\<close>

record createSubscriptionDto =
  dto_user_id :: "string option"
  dto_plan :: "string option"
  dto_plan_id :: "string option"
  dto_stripe_price_id :: "string option"
  dto_status :: "subscriptionStatus option"
  dto_trial_period_days :: "int option"
  dto_started_at :: "timestamp option"
  dto_ended_at :: "timestamp option option"
  dto_stripe_invoice_url :: "string option option"
  dto_note :: "string option"
  dto_metadata :: "obj option"

record updateSubscriptionDto = createSubscriptionDto +
  dto_pause_reason :: "string option option"
  dto_cancel_reason :: "string option option"

record pauseSubscriptionDto =
  pause_reason_dto :: "string option"

record resumeSubscriptionDto =
  resume_plan_dto :: "string option"
  resume_stripe_invoice_url_dto :: "string option"

record cancelSubscriptionDto =
  cancel_reason_dto :: "string option"
  cancel_stripe_invoice_url_dto :: "string option"

text \<open>The authenticated caller (\<^verbatim>\<open>User\<close> of the identity provider).\<close>

record requester =
  requester_id :: string
  requester_email :: "string option"
  requester_full_name :: "string option"

record priceResolution =
  priceId :: "string option"
  planId :: "string option"
  planName :: "string option"

definition resolvePrice :: "env \<Rightarrow> 'a createSubscriptionDto_scheme \<Rightarrow> priceResolution io" where
  "resolvePrice e dto =
     (case (if truthy (dto_plan_id dto) then dto_plan_id dto else None) of
        Some pid \<Rightarrow>
          io_bind (plans_findOne e pid) (\<lambda>plan'.
            io_return \<lparr> priceId = Some (p_stripe_price_id plan'), planId = Some (p_id plan'),
                        planName = Some (p_name plan') \<rparr>)
      | None \<Rightarrow>
          (case (if truthy (dto_stripe_price_id dto) then dto_stripe_price_id dto else None) of
             Some price \<Rightarrow>
               io_bind (plans_findByStripePrice e price) (\<lambda>plan'.
                 io_return \<lparr> priceId = Some price, planId = map_option p_id plan',
                             planName = coalesce (map_option p_name plan') (dto_plan dto) \<rparr>)
           | None \<Rightarrow>
               io_return \<lparr> priceId = None, planId = None, planName = dto_plan dto \<rparr>))"

subsection \<open>The customer mapping (\<^verbatim>\<open>CustomersService.ensureCustomer\<close>)\<close>

record ensureCustomerOptions =
  opt_userId :: string
  opt_email :: "string option"
  opt_name :: "string option"
  opt_metadata :: "obj option"

definition js_of :: "string option \<Rightarrow> js" where
  "js_of s = (case s of None \<Rightarrow> JUndefined | Some x \<Rightarrow> JStr x)"

definition customers_findByUserId :: "string \<Rightarrow> customerRecord option io" where
  "customers_findByUserId userId =
     db_select stripe_customers_table
       (\<lambda>w. maybeSingle (filter (\<lambda>c. cr_user_id c = userId) (stripe_customers w)))"

definition customers_updateLocal :: "env \<Rightarrow> string \<Rightarrow> string \<Rightarrow> customerRecord io" where
  "customers_updateLocal e i email =
     io_bind (now e) (\<lambda>nowIso.
     io_bind (db_write e (DbUpdate stripe_customers_table)
                (\<lambda>w. w\<lparr>stripe_customers :=
                          map (\<lambda>c. if cr_id c = i
                                    then c\<lparr>cr_email := Some email, cr_updated_at := nowIso\<rparr>
                                    else c)
                            (stripe_customers w)\<rparr>)) (\<lambda>error.
       case error of
         Some msg \<Rightarrow> io_throw (InternalServerErrorException
                       (''Failed to update stripe customer mapping: '' @ msg))
       | None \<Rightarrow>
           (\<lambda>w. case maybeSingle (filter (\<lambda>c. cr_id c = i) (stripe_customers w)) of
                  None \<Rightarrow> (Inl (InternalServerErrorException
                              ''Failed to update stripe customer mapping: undefined''), w)
                | Some c \<Rightarrow> (Inr c, w))))"

definition insert_customer ::
  "env \<Rightarrow> string \<Rightarrow> string \<Rightarrow> string option \<Rightarrow> js \<Rightarrow> timestamp \<Rightarrow> world \<Rightarrow> world" where
  "insert_customer e userId customerId email metadata' updated w =
     w\<lparr>stripe_customers := stripe_customers w @
          [\<lparr> cr_id = gen_random_uuid e (uuid_count w), cr_user_id = userId,
             cr_stripe_customer_id = customerId, cr_email = email, cr_metadata = metadata',
             cr_created_at = clock e (ticks w), cr_updated_at = updated \<rparr>],
       uuid_count := Suc (uuid_count w), ticks := Suc (ticks w)\<rparr>"

definition ensureCustomer :: "env \<Rightarrow> ensureCustomerOptions \<Rightarrow> customerRecord io" where
  "ensureCustomer e options =
     io_bind (customers_findByUserId (opt_userId options)) (\<lambda>existing.
       let email = coalesce (opt_email options) (auth_user_email e (opt_userId options))
       in case existing of
            Some ex \<Rightarrow>
              (case (if truthy email \<and> cr_email ex \<noteq> email then email else None) of
                 Some em \<Rightarrow>
                   io_bind (stripe_request (CustomersUpdate (cr_stripe_customer_id ex) em)
                              (api_customers_update e (cr_stripe_customer_id ex) em)) (\<lambda>_.
                   io_bind (customers_updateLocal e (cr_id ex) em) (\<lambda>_. io_return ex))
               | None \<Rightarrow> io_return ex)
          | None \<Rightarrow>
              (let params = \<lparr> cc_email = email, cc_name = opt_name options,
                              cc_metadata =
                                [''user_id'' \<mapsto> JStr (opt_userId options)]
                                ++ (case opt_metadata options of None \<Rightarrow> Map.empty | Some m \<Rightarrow> m) \<rparr>
               in io_bind (stripe_request (CustomersCreate params) (api_customers_create e params))
                    (\<lambda>customer.
                  io_bind (now e) (\<lambda>nowIso.
                  io_bind (db_write e (DbInsert stripe_customers_table)
                             (insert_customer e (opt_userId options) (sc_id customer)
                                (coalesce (sc_email customer) email)
                                (JObj (case sc_metadata customer of
                                         Some m \<Rightarrow> m
                                       | None \<Rightarrow> (case opt_metadata options of
                                                    Some m \<Rightarrow> m | None \<Rightarrow> Map.empty)))
                                nowIso)) (\<lambda>error.
                    case error of
                      Some msg \<Rightarrow> io_throw (InternalServerErrorException
                                    (''Failed to store Stripe customer mapping: '' @ msg))
                    | None \<Rightarrow>
                        (\<lambda>w. case stripe_customers w of
                               [] \<Rightarrow> (Inl (InternalServerErrorException
                                           ''Failed to store Stripe customer mapping: undefined''), w)
                             | _ \<Rightarrow> (Inr (last (stripe_customers w)), w)))))))"

subsection \<open>Operations of the lifecycle manager\<close>

text \<open>JavaScript truthiness of the column \<^verbatim>\<open>stripe_subscription_id\<close>: the external id of an
  externally-backed row, \<open>None\<close> for a local-only row.\<close>

definition external_id :: "subscription \<Rightarrow> string option" where
  "external_id sub =
     (case stripe_subscription_id sub of
        None \<Rightarrow> None
      | Some i \<Rightarrow> if i = [] then None else Some i)"

definition obj_or_empty :: "obj option \<Rightarrow> obj" where
  "obj_or_empty m = (case m of None \<Rightarrow> Map.empty | Some x \<Rightarrow> x)"

definition create :: "env \<Rightarrow> requester \<Rightarrow> createSubscriptionDto \<Rightarrow> bool \<Rightarrow> subscription io" where
  "create e req dto isAdmin =
     (let targetUserId = (case dto_user_id dto of Some u \<Rightarrow> u | None \<Rightarrow> requester_id req)
      in if \<not> isValidUUID targetUserId
         then io_throw (BadRequestException ''Invalid user identifier'')
         else if \<not> isAdmin \<and> targetUserId \<noteq> requester_id req
         then io_throw (ForbiddenException
                          ''You are not allowed to create subscriptions for other users'')
         else
     io_bind (ensureUserCanStartNew targetUserId) (\<lambda>_.
     io_bind (resolvePrice e dto) (\<lambda>resolution.
       case (if truthy (priceId resolution) then priceId resolution else None) of
         None \<Rightarrow> io_throw (BadRequestException
                   ''A valid plan_id or stripe_price_id is required to create a subscription'')
       | Some price \<Rightarrow>
     io_bind (ensureCustomer e
                \<lparr> opt_userId = targetUserId,
                  opt_email = (if targetUserId = requester_id req then requester_email req
                               else None),
                  opt_name = (if targetUserId = requester_id req
                              then coalesce (requester_full_name req) (requester_email req)
                              else None),
                  opt_metadata = dto_metadata dto \<rparr>) (\<lambda>customerRecord.
       let params = \<lparr> cp_customer = cr_stripe_customer_id customerRecord,
                       cp_price = price,
                       cp_trial_period_days = dto_trial_period_days dto,
                       cp_metadata =
                         [''user_id'' \<mapsto> JStr targetUserId,
                          ''plan_id'' \<mapsto> js_of (planId resolution),
                          ''plan_name'' \<mapsto> js_of (coalesce (planName resolution) (dto_plan dto))]
                         ++ obj_or_empty (dto_metadata dto) \<rparr>
       in
     io_bind (stripe_request (SubscriptionsCreate params) (api_subscriptions_create e params))
       (\<lambda>created_stripe.
     io_bind (syncFromStripe e created_stripe (obj_or_empty (dto_metadata dto))) (\<lambda>_.
     io_bind (findByStripeSubscriptionId (stripe_id created_stripe)) (\<lambda>created.
       case created of
         None \<Rightarrow> io_throw (InternalServerErrorException
                   ''Failed to persist subscription after Stripe creation'')
       | Some r \<Rightarrow> io_return r)))))))"


text \<open>The object \<^verbatim>\<open>updates\<close> of \<^verbatim>\<open>update\<close> (lines 308-353).\<close>

definition update_updates ::
  "subscription \<Rightarrow> updateSubscriptionDto \<Rightarrow> bool \<Rightarrow> timestamp \<Rightarrow> updates" where
  "update_updates sub dto metadataMerged nowIso =
     (let u0 = no_updates\<lparr>set_last_event_at := Some (Some nowIso)\<rparr>;
          u1 = (if external_id sub = None \<and> dto_status dto \<noteq> None
                then u0\<lparr>set_status := dto_status dto\<rparr> else u0);
          u2 = (if external_id sub = None \<and> truthy (dto_plan dto)
                then u1\<lparr>set_plan := Some (dto_plan dto)\<rparr> else u1);
          u3 = (if external_id sub = None \<and> truthy (dto_plan_id dto)
                then u2\<lparr>set_plan_id := Some (dto_plan_id dto)\<rparr> else u2);
          u4 = (if dto_started_at dto \<noteq> None
                then u3\<lparr>set_started_at := Some (dto_started_at dto)\<rparr> else u3);
          u5 = (case dto_ended_at dto of
                  Some v \<Rightarrow> u4\<lparr>set_ended_at := Some v\<rparr> | None \<Rightarrow> u4);
          u6 = (case dto_pause_reason dto of
                  Some v \<Rightarrow> u5\<lparr>set_pause_reason := Some v\<rparr> | None \<Rightarrow> u5);
          u7 = (case dto_cancel_reason dto of
                  Some v \<Rightarrow> u6\<lparr>set_cancel_reason := Some v\<rparr> | None \<Rightarrow> u6);
          u8 = (case dto_stripe_invoice_url dto of
                  Some v \<Rightarrow> u7\<lparr>set_stripe_invoice_url := Some v\<rparr> | None \<Rightarrow> u7);
          u9 = (if \<not> metadataMerged \<and> dto_metadata dto \<noteq> None
                then u8\<lparr>set_metadata :=
                         Some (mergeMetadata (Some (metadata sub)) (dto_metadata dto) None)\<rparr>
                else u8)
      in u9\<lparr>set_user_id := None\<rparr>)"

text \<open>The gateway side of \<^verbatim>\<open>update\<close> (lines 259-306), for an externally-backed row: the
  result is the flag \<^verbatim>\<open>metadataMerged\<close>.\<close>

definition update_external ::
  "env \<Rightarrow> string \<Rightarrow> updateSubscriptionDto \<Rightarrow> bool io" where
  "update_external e stripeId dto =
     io_bind (stripe_request (SubscriptionsRetrieve stripeId)
                (api_subscriptions_retrieve e stripeId)) (\<lambda>currentStripe.
     io_bind (resolvePrice e dto) (\<lambda>resolution.
       let firstItem = (case stripe_items currentStripe of
                          [] \<Rightarrow> None | item # _ \<Rightarrow> Some item);
           items =
             (case firstItem of
                None \<Rightarrow> None
              | Some item \<Rightarrow>
                  if truthy (priceId resolution)
                     \<and> priceId resolution \<noteq> map_option price_id (item_price item)
                  then Some [(item_id item, case priceId resolution of
                                              Some x \<Rightarrow> x | None \<Rightarrow> [])]
                  else None);
           metadata' =
             (case dto_metadata dto of
                None \<Rightarrow> None
              | Some m \<Rightarrow>
                  if m \<noteq> Map.empty
                  then Some ((case stripe_metadata currentStripe of
                                None \<Rightarrow> Map.empty | Some sm \<Rightarrow> metadata_obj sm) ++ m)
                  else None);
           updateParams = \<lparr> up_items = items, up_metadata = metadata',
                             up_pause_collection = None \<rparr>
       in if items \<noteq> None \<or> metadata' \<noteq> None
          then io_bind (stripe_request (SubscriptionsUpdate stripeId updateParams)
                          (api_subscriptions_update e stripeId updateParams))
                 (\<lambda>updatedStripe.
               io_bind (syncFromStripe e updatedStripe (obj_or_empty (dto_metadata dto)))
                 (\<lambda>_. io_return True))
          else io_bind (syncFromStripe e currentStripe (obj_or_empty (dto_metadata dto)))
                 (\<lambda>_. io_return True)))"

definition update ::
  "env \<Rightarrow> string \<Rightarrow> string \<Rightarrow> updateSubscriptionDto \<Rightarrow> bool \<Rightarrow> subscription io" where
  "update e i requesterId dto isAdmin =
     io_bind (getById i) (\<lambda>sub.
     io_bind (ensureAccess sub requesterId isAdmin) (\<lambda>_.
     io_bind
       (case external_id sub of
          None \<Rightarrow> io_return False
        | Some stripeId \<Rightarrow> update_external e stripeId dto) (\<lambda>metadataMerged.
     io_bind (now e) (\<lambda>nowIso.
       let updates = update_updates sub dto metadataMerged nowIso
       in io_bind
            (if keys_length updates > 1
             then io_bind (db_write e (DbUpdate subscriptions_table) (update_rows updates i))
                    (\<lambda>error. case error of
                        Some msg \<Rightarrow> io_throw (InternalServerErrorException
                                      (''Failed to update subscription: '' @ msg))
                      | None \<Rightarrow> io_return ())
             else io_return ())
            (\<lambda>_. getById i)))))"

text \<open>The object \<^verbatim>\<open>updates\<close> of \<^verbatim>\<open>pause\<close> (lines 405-414).\<close>

definition pause_updates :: "subscription \<Rightarrow> pauseSubscriptionDto \<Rightarrow> timestamp \<Rightarrow> updates" where
  "pause_updates sub dto nowIso =
     (let u0 = no_updates\<lparr>set_pause_reason := Some (pause_reason_dto dto),
                           set_last_event_at := Some (Some nowIso)\<rparr>
      in if external_id sub = None
         then u0\<lparr>set_status := Some Paused, set_ended_at := Some (Some nowIso)\<rparr>
         else u0)"

definition pause ::
  "env \<Rightarrow> string \<Rightarrow> string \<Rightarrow> pauseSubscriptionDto \<Rightarrow> bool \<Rightarrow> subscription io" where
  "pause e i requesterId dto isAdmin =
     io_bind (getById i) (\<lambda>sub.
     io_bind (ensureAccess sub requesterId isAdmin) (\<lambda>_.
       if status sub \<notin> set ACTIVE_STATUSES
       then io_throw (BadRequestException ''Only active subscriptions can be paused'')
       else
     io_bind
       (case external_id sub of
          None \<Rightarrow> io_return ()
        | Some stripeId \<Rightarrow>
            (let params = \<lparr> up_items = None,
                             up_metadata =
                               (if truthy (pause_reason_dto dto)
                                then Some [''pause_reason'' \<mapsto> js_of (pause_reason_dto dto)]
                                else None),
                             up_pause_collection =
                               Some (Some \<lparr> behavior = ''mark_uncollectible'' \<rparr>) \<rparr>
             in io_bind (stripe_request (SubscriptionsUpdate stripeId params)
                           (api_subscriptions_update e stripeId params)) (\<lambda>updatedStripe.
                  syncFromStripe e updatedStripe
                    [''pause_reason'' \<mapsto> js_of (pause_reason_dto dto)]))) (\<lambda>_.
     io_bind (now e) (\<lambda>nowIso.
     io_bind (db_write e (DbUpdate subscriptions_table)
                (update_rows (pause_updates sub dto nowIso) i)) (\<lambda>error.
       case error of
         Some msg \<Rightarrow> io_throw (InternalServerErrorException
                       (''Failed to pause subscription: '' @ msg))
       | None \<Rightarrow> getById i)))))"

text \<open>The object \<^verbatim>\<open>updates\<close> of \<^verbatim>\<open>resume\<close> (lines 459-480).\<close>

definition resume_updates :: "subscription \<Rightarrow> resumeSubscriptionDto \<Rightarrow> timestamp \<Rightarrow> updates" where
  "resume_updates sub dto nowIso =
     (let u0 = no_updates\<lparr>set_pause_reason := Some None,
                           set_last_event_at := Some (Some nowIso)\<rparr>;
          u1 = (if external_id sub = None
                then (let v = u0\<lparr>set_status := Some Active, set_ended_at := Some None\<rparr>
                      in if started_at sub = None
                         then v\<lparr>set_started_at := Some (Some nowIso)\<rparr> else v)
                else u0);
          u2 = (if truthy (resume_plan_dto dto) \<and> external_id sub = None
                then u1\<lparr>set_plan := Some (resume_plan_dto dto)\<rparr> else u1)
      in if truthy (resume_stripe_invoice_url_dto dto)
         then u2\<lparr>set_stripe_invoice_url := Some (resume_stripe_invoice_url_dto dto)\<rparr>
         else u2)"

definition resume ::
  "env \<Rightarrow> string \<Rightarrow> string \<Rightarrow> resumeSubscriptionDto \<Rightarrow> bool \<Rightarrow> subscription io" where
  "resume e i requesterId dto isAdmin =
     io_bind (getById i) (\<lambda>sub.
     io_bind (ensureAccess sub requesterId isAdmin) (\<lambda>_.
       if status sub \<noteq> Paused
       then io_throw (BadRequestException ''Only paused subscriptions can be resumed'')
       else
     io_bind
       (case external_id sub of
          None \<Rightarrow> io_return ()
        | Some stripeId \<Rightarrow>
            (let params = \<lparr> up_items = None, up_metadata = None,
                             up_pause_collection = Some None \<rparr>
             in io_bind (stripe_request (SubscriptionsUpdate stripeId params)
                           (api_subscriptions_update e stripeId params)) (\<lambda>updatedStripe.
                  syncFromStripe e updatedStripe Map.empty))) (\<lambda>_.
     io_bind (now e) (\<lambda>nowIso.
     io_bind (db_write e (DbUpdate subscriptions_table)
                (update_rows (resume_updates sub dto nowIso) i)) (\<lambda>error.
       case error of
         Some msg \<Rightarrow> io_throw (InternalServerErrorException
                       (''Failed to resume subscription: '' @ msg))
       | None \<Rightarrow> getById i)))))"

text \<open>The object \<^verbatim>\<open>updates\<close> of \<^verbatim>\<open>cancel\<close> (lines 528-539).\<close>

definition cancel_updates :: "subscription \<Rightarrow> cancelSubscriptionDto \<Rightarrow> timestamp \<Rightarrow> updates" where
  "cancel_updates sub dto nowIso =
     (let u0 = no_updates\<lparr>set_cancel_reason := Some (cancel_reason_dto dto),
                           set_stripe_invoice_url :=
                             Some (coalesce (cancel_stripe_invoice_url_dto dto)
                                     (stripe_invoice_url sub)),
                           set_last_event_at := Some (Some nowIso)\<rparr>
      in if external_id sub = None
         then u0\<lparr>set_status := Some Canceled, set_ended_at := Some (Some nowIso)\<rparr>
         else u0)"

definition cancel ::
  "env \<Rightarrow> string \<Rightarrow> string \<Rightarrow> cancelSubscriptionDto \<Rightarrow> bool \<Rightarrow> subscription io" where
  "cancel e i requesterId dto isAdmin =
     io_bind (getById i) (\<lambda>sub.
     io_bind (ensureAccess sub requesterId isAdmin) (\<lambda>_.
       if status sub = Canceled
       then io_throw (BadRequestException ''Subscription is already canceled'')
       else
     io_bind
       (case external_id sub of
          None \<Rightarrow> io_return ()
        | Some stripeId \<Rightarrow>
            io_bind (stripe_request (SubscriptionsCancel stripeId False False)
                       (api_subscriptions_cancel e stripeId)) (\<lambda>canceledStripe.
              syncFromStripe e canceledStripe
                [''cancel_reason'' \<mapsto> js_of (cancel_reason_dto dto)])) (\<lambda>_.
     io_bind (now e) (\<lambda>nowIso.
     io_bind (db_write e (DbUpdate subscriptions_table)
                (update_rows (cancel_updates sub dto nowIso) i)) (\<lambda>error.
       case error of
         Some msg \<Rightarrow> io_throw (InternalServerErrorException
                       (''Failed to cancel subscription: '' @ msg))
       | None \<Rightarrow> getById i)))))"

text \<open>The hard delete of the local row (lines 588-595 of \<^verbatim>\<open>remove\<close>).\<close>

definition deleteRow :: "env \<Rightarrow> string \<Rightarrow> unit io" where
  "deleteRow e i =
     io_bind (db_write e (DbDelete subscriptions_table) (delete_rows i)) (\<lambda>error.
       case error of
         Some msg \<Rightarrow> io_throw (InternalServerErrorException
                       (''Failed to delete subscription: '' @ msg))
       | None \<Rightarrow> io_return ())"

text \<open>\<^verbatim>\<open>remove\<close>\<close>

definition remove_subscription :: "env \<Rightarrow> string \<Rightarrow> string \<Rightarrow> bool \<Rightarrow> unit io" where
  "remove_subscription e i requesterId isAdmin =
     io_bind (getById i) (\<lambda>sub.
     io_bind (ensureAccess sub requesterId isAdmin) (\<lambda>_.
       if \<not> isAdmin \<and> status sub \<notin> set [Canceled, Expired]
       then io_throw (BadRequestException
                        ''Only canceled or expired subscriptions can be deleted'')
       else
     io_bind
       (if external_id sub \<noteq> None \<and> status sub \<noteq> Canceled
        then io_bind (cancel e i requesterId
                        \<lparr> cancel_reason_dto = Some ''Deleted via API'',
                          cancel_stripe_invoice_url_dto = None \<rparr> isAdmin)
               (\<lambda>_. io_return ())
        else io_return ()) (\<lambda>_. deleteRow e i)))"

text \<open>\<^verbatim>\<open>handleCheckoutSession\<close>\<close>

record checkout_session =
  cs_mode :: string
  cs_subscription :: "stripe_subscription expandable option"
  cs_metadata :: "(string \<Rightarrow> string option) option"

definition handleCheckoutSession :: "env \<Rightarrow> checkout_session option \<Rightarrow> unit io" where
  "handleCheckoutSession e session =
     (case session of
        None \<Rightarrow> io_return ()
      | Some s \<Rightarrow>
          if cs_mode s \<noteq> ''subscription'' then io_return ()
          else
            (let subscriptionId =
                   (case cs_subscription s of
                      None \<Rightarrow> None
                    | Some (Unexpanded i) \<Rightarrow> Some i
                    | Some (Expanded sub) \<Rightarrow>
                        if stripe_id sub \<noteq> [] then Some (stripe_id sub) else None)
             in case (if truthy subscriptionId then subscriptionId else None) of
                  None \<Rightarrow> io_return ()
                | Some i \<Rightarrow>
                    io_bind (stripe_request (SubscriptionsRetrieve i)
                               (api_subscriptions_retrieve e i)) (\<lambda>sub.
                      syncFromStripe e sub
                        (case cs_metadata s of
                           None \<Rightarrow> Map.empty
                         | Some m \<Rightarrow> metadata_obj m))))"

subsection \<open>The values that the steps of reconciliation compute\<close>

text \<open>The steps of \<^verbatim>\<open>syncFromStripe\<close> read the world and change only its logs and its clock
  before the write. These are the values they yield; the lemmas below relate them to the steps.\<close>

definition sync_plan :: "env \<Rightarrow> stripe_subscription \<Rightarrow> planEntity option" where
  "sync_plan e sub =
     (case first_price sub of
        None \<Rightarrow> None
      | Some price \<Rightarrow> if price_id price = [] then None else plan_by_price e (price_id price))"

definition plan_selects :: "stripe_subscription \<Rightarrow> db_op list" where
  "plan_selects sub =
     (case first_price sub of
        None \<Rightarrow> []
      | Some price \<Rightarrow> if price_id price = [] then [] else [DbSelect plans_table])"

definition sync_invoice_url :: "env \<Rightarrow> stripe_subscription \<Rightarrow> string option" where
  "sync_invoice_url e sub =
     (case stripe_latest_invoice sub of
        None \<Rightarrow> None
      | Some (Unexpanded i) \<Rightarrow>
          if i = [] then None
          else (case api_invoices_retrieve e i of
                  Inl _ \<Rightarrow> None
                | Inr invoice \<Rightarrow> invoice_url invoice)
      | Some (Expanded invoice) \<Rightarrow> invoice_url invoice)"

definition invoice_calls :: "stripe_subscription \<Rightarrow> stripe_call list" where
  "invoice_calls sub =
     (case stripe_latest_invoice sub of
        Some (Unexpanded i) \<Rightarrow> if i = [] then [] else [InvoicesRetrieve i]
      | _ \<Rightarrow> [])"

definition resolved_user ::
  "stripe_subscription \<Rightarrow> subscription option \<Rightarrow> string \<Rightarrow> world \<Rightarrow> string option" where
  "resolved_user sub existing customerId w =
     (let u = (if truthy (map_option user_id existing) then map_option user_id existing
               else customer_mapping_user customerId w)
      in if \<not> truthy u \<and> truthy (metadata_user_id sub) then metadata_user_id sub else u)"

text \<open>The customer and the owner for which reconciliation writes; \<open>None\<close> when it returns
  before writing.\<close>

definition sync_target :: "stripe_subscription \<Rightarrow> world \<Rightarrow> (string \<times> string) option" where
  "sync_target sub w =
     (case stripeCustomerId sub of
        None \<Rightarrow> None
      | Some cid \<Rightarrow>
          if cid = [] then None
          else (case resolved_user sub (by_stripe_subscription_id (stripe_id sub) w) cid w of
                  None \<Rightarrow> None
                | Some uid \<Rightarrow> if uid = [] then None else Some (cid, uid)))"

definition sync_selects :: "stripe_subscription \<Rightarrow> world \<Rightarrow> db_op list" where
  "sync_selects sub w =
     [DbSelect subscriptions_table]
     @ (if truthy (map_option user_id (by_stripe_subscription_id (stripe_id sub) w)) then []
        else [DbSelect stripe_customers_table])"

definition dates_in_range :: "stripe_subscription \<Rightarrow> bool" where
  "dates_in_range sub =
     (in_date_range (stripe_start_date sub)
      \<and> in_date_range (stripe_current_period_start sub)
      \<and> in_date_range (stripe_current_period_end sub)
      \<and> in_date_range (stripe_ended_at sub)
      \<and> in_date_range (stripe_cancel_at sub)
      \<and> in_date_range (stripe_canceled_at sub))"

definition sync_payload_at ::
  "env \<Rightarrow> stripe_subscription \<Rightarrow> obj \<Rightarrow> subscription option \<Rightarrow> string \<Rightarrow> string \<Rightarrow> timestamp
     \<Rightarrow> updates" where
  "sync_payload_at e sub c ex cid uid t =
     syncPayload sub ex uid cid (sync_plan e sub) (sync_invoice_url e sub)
       (mergeMetadata (map_option metadata ex) (Some c) (Some (stripe_metadata_or_empty sub))) t"

text \<open>The table after the write of \<^verbatim>\<open>upsert\<close>, when the datastore accepts it: \<open>i\<close> and \<open>t\<close>
  are the identifier and the time that the datastore gives to an inserted row.\<close>

definition upsert_rows ::
  "subscription option \<Rightarrow> updates \<Rightarrow> subscription list \<Rightarrow> string \<Rightarrow> timestamp
     \<Rightarrow> subscription list" where
  "upsert_rows existing payload rows i t =
     (let inserted = (case set_user_id payload of
                        None \<Rightarrow> rows
                      | Some uid \<Rightarrow> rows @ [apply_updates payload (default_row i t uid)])
      in case existing of
           None \<Rightarrow> inserted
         | Some ex \<Rightarrow>
             if row_id ex \<noteq> []
             then map (\<lambda>r. if row_id r = row_id ex then apply_updates payload r else r) rows
             else inserted)"

text \<open>The rows of the subscription with a given external id.\<close>

definition rows_of :: "string \<Rightarrow> world \<Rightarrow> subscription list" where
  "rows_of stripeId w =
     filter (\<lambda>r. stripe_subscription_id r = Some stripeId) (subscriptions w)"

text \<open>The owner of the first row with a given id.\<close>

definition owner_of :: "string \<Rightarrow> world \<Rightarrow> string option" where
  "owner_of i w =
     (case filter (\<lambda>r. row_id r = i) (subscriptions w) of
        [] \<Rightarrow> None
      | s # _ \<Rightarrow> Some (user_id s))"

text \<open>The requests of \<^verbatim>\<open>remove\<close>: the cancellation of the subscription and the lookups of
  invoices that reconciliation makes.\<close>

definition cancel_or_invoice :: "stripe_call \<Rightarrow> bool" where
  "cancel_or_invoice c =
     (case c of
        SubscriptionsCancel stripeId invoice_now prorate \<Rightarrow> \<not> invoice_now \<and> \<not> prorate
      | InvoicesRetrieve invoiceId \<Rightarrow> True
      | _ \<Rightarrow> False)"

text \<open>Every run of \<open>m\<close> only appends requests that satisfy \<open>ok\<close> to the log of the gateway.\<close>

definition calls_added :: "(stripe_call \<Rightarrow> bool) \<Rightarrow> 'a io \<Rightarrow> bool" where
  "calls_added ok m =
     (\<forall>w res w'. m w = (res, w')
        \<longrightarrow> (\<exists>cs. stripe_calls w' = stripe_calls w @ cs \<and> list_all ok cs))"

subsection \<open>The priority of the specification\<close>

text \<open>The owner is the first candidate that resolves, in the order of the specification:
  the user id of the local row, the one of the customer mapping, the hint of the metadata.
  A candidate resolves when it is a non-empty string.\<close>

fun first_resolving :: "string option list \<Rightarrow> string option" where
  "first_resolving [] = None"
| "first_resolving (c # cs) = (if truthy c then c else first_resolving cs)"

subsection \<open>The status table of the specification\<close>

text \<open>The mapping table as the specification prints it, row by row; an external status that
  is not in the table maps to \<open>Expired\<close>, and a pause-collection setting overrides the table.\<close>

definition status_table :: "(string \<times> subscriptionStatus) list" where
  "status_table =
     [(''active'', Active), (''trialing'', Trialing), (''past_due'', PastDue),
      (''canceled'', Canceled), (''incomplete'', Incomplete),
      (''incomplete_expired'', IncompleteExpired), (''unpaid'', Unpaid)]"

definition canonical_status :: "bool \<Rightarrow> string \<Rightarrow> subscriptionStatus" where
  "canonical_status pauseCollection external =
     (if pauseCollection then Paused
      else (case map_of status_table external of Some s \<Rightarrow> s | None \<Rightarrow> Expired))"

subsection \<open>Example worlds\<close>

definition empty_obj :: obj where
  "empty_obj = Map.empty"

definition id_a :: string where
  "id_a = ''11111111-1111-4111-8111-111111111111''"

definition id_b :: string where
  "id_b = ''33333333-3333-4333-8333-333333333333''"

definition id_c :: string where
  "id_c = ''44444444-4444-4444-8444-444444444444''"

definition user_u :: string where
  "user_u = ''22222222-2222-4222-8222-222222222222''"

definition example_row ::
  "string \<Rightarrow> string \<Rightarrow> string option \<Rightarrow> subscriptionStatus \<Rightarrow> subscription" where
  "example_row i u stripeId st =
     \<lparr> row_id = i, created_at = 1700000000000, user_id = u, plan = Some ''pro'', plan_id = None,
       stripe_subscription_id = stripeId, stripe_customer_id = None, status = st,
       started_at = None, current_period_start = None, current_period_end = None,
       ended_at = Some 1700000500000, cancel_at = None, canceled_at = None,
       stripe_invoice_url = None, pause_reason = Some ''on holiday'', cancel_reason = None,
       metadata = JObj Map.empty, last_event_at = None \<rparr>"

definition example_world :: "subscription list \<Rightarrow> world" where
  "example_world rows =
     \<lparr> subscriptions = rows, stripe_customers = [], stripe_calls = [], db_ops = [],
       uuid_count = 0, ticks = 0 \<rparr>"

definition example_snapshot ::
  "string \<Rightarrow> customer_ref option \<Rightarrow> string \<Rightarrow> pause_collection option \<Rightarrow> stripe_subscription" where
  "example_snapshot i customer st pc =
     \<lparr> stripe_id = i, stripe_customer = customer,
       stripe_metadata = Some [''user_id'' \<mapsto> user_u], stripe_items = [],
       stripe_latest_invoice = None, stripe_status = st, stripe_pause_collection = pc,
       stripe_start_date = Some 1700000000, stripe_current_period_start = None,
       stripe_current_period_end = None, stripe_ended_at = None, stripe_cancel_at = None,
       stripe_canceled_at = None \<rparr>"

definition user_v :: string where
  "user_v = ''55555555-5555-4555-8555-555555555555''"

definition example_customer :: customerRecord where
  "example_customer =
     \<lparr> cr_id = id_c, cr_user_id = user_v, cr_stripe_customer_id = ''cus_1'', cr_email = None,
       cr_metadata = JObj Map.empty, cr_created_at = 1600000000000,
       cr_updated_at = 1600000000000 \<rparr>"

text \<open>A snapshot of a customer that is not mapped, without a hint in its metadata.\<close>

definition orphan_snapshot :: stripe_subscription where
  "orphan_snapshot =
     (example_snapshot ''sub_9'' (Some (CustomerId ''cus_9'')) ''active'' None)
       \<lparr>stripe_metadata := None\<rparr>"

text \<open>A request that names another user, a plan label and a status.\<close>

definition example_update :: updateSubscriptionDto where
  "example_update =
     \<lparr> dto_user_id = Some user_v, dto_plan = Some ''team'', dto_plan_id = None,
       dto_stripe_price_id = None, dto_status = Some Canceled, dto_trial_period_days = None,
       dto_started_at = None, dto_ended_at = None, dto_stripe_invoice_url = None,
       dto_note = None, dto_metadata = None, dto_pause_reason = None,
       dto_cancel_reason = None \<rparr>"

text \<open>A gateway that answers a cancellation with the canceled subscription and refuses
  everything else; a datastore that accepts every write.\<close>

definition example_env :: env where
  "example_env =
     \<lparr> plans = [],
       api_subscriptions_create = (\<lambda>p. Inl ''unavailable''),
       api_subscriptions_retrieve = (\<lambda>i. Inl ''unavailable''),
       api_subscriptions_update = (\<lambda>i p. Inl ''unavailable''),
       api_subscriptions_cancel =
         (\<lambda>i. Inr (example_snapshot i (Some (CustomerId ''cus_1'')) ''canceled'' None)),
       api_invoices_retrieve = (\<lambda>i. Inl ''unavailable''),
       api_customers_create = (\<lambda>p. Inl ''unavailable''),
       api_customers_update = (\<lambda>i m. Inl ''unavailable''),
       auth_user_email = (\<lambda>u. None),
       db_refuses = (\<lambda>n. None),
       gen_random_uuid = (\<lambda>n. if n = 0 then id_b else id_c),
       clock = (\<lambda>n. 1700000900000 + int n) \<rparr>"

text \<open>A caller who asks for a subscription for themselves, by a price of the gateway.\<close>

definition example_requester :: requester where
  "example_requester =
     \<lparr> requester_id = user_u, requester_email = Some ''u@example.org'',
       requester_full_name = None \<rparr>"

definition example_create :: createSubscriptionDto where
  "example_create =
     \<lparr> dto_user_id = None, dto_plan = None, dto_plan_id = None,
       dto_stripe_price_id = Some ''price_1'', dto_status = None, dto_trial_period_days = None,
       dto_started_at = None, dto_ended_at = None, dto_stripe_invoice_url = None,
       dto_note = None, dto_metadata = None \<rparr>"

text \<open>A snapshot of an active subscription of the customer \<^verbatim>\<open>cus_1\<close> with one line item, whose
  price carries the nickname \<^verbatim>\<open>pro\<close>; its metadata name the user. The catalogue of
  \<open>example_env\<close> has no plan for the price, so the row takes the nickname as its \<^verbatim>\<open>plan\<close>
  (the column is \<^verbatim>\<open>NOT NULL\<close>).\<close>

definition priced_snapshot :: "string \<Rightarrow> stripe_subscription" where
  "priced_snapshot i =
     (example_snapshot i (Some (CustomerId ''cus_1'')) ''active'' None)
       \<lparr>stripe_items :=
          [\<lparr> item_id = ''si_1'',
             item_price = Some \<lparr> price_id = ''price_1'', nickname = Some ''pro'' \<rparr> \<rparr>]\<rparr>"




section \<open>Properties\<close>

subsection \<open>Running the steps\<close>

lemma truthy_simps [simp]: "\<not> truthy None" "truthy (Some x) = (x \<noteq> [])"
  by (simp_all add: truthy_def)

lemma io_bind_return [simp]: "io_bind (io_return x) f = f x"
  by (simp add: io_bind_def io_return_def)

lemma io_bind_throw [simp]: "io_bind (io_throw x) f = io_throw x"
  by (simp add: io_bind_def io_throw_def fun_eq_iff)

lemma io_return_apply [simp]: "io_return x w = (Inr x, w)"
  by (simp add: io_return_def)

lemma io_throw_apply [simp]: "io_throw x w = (Inl x, w)"
  by (simp add: io_throw_def)

lemma io_bind_assoc [simp]: "io_bind (io_bind m f) g = io_bind m (\<lambda>x. io_bind (f x) g)"
  by (auto simp add: io_bind_def fun_eq_iff split: prod.splits sum.splits)

lemma io_bind_apply:
  "m w = (r, w') \<Longrightarrow> io_bind m f w = (case r of Inl x \<Rightarrow> (Inl x, w') | Inr x \<Rightarrow> f x w')"
  by (simp add: io_bind_def split: sum.splits)

lemma io_bind_select [simp]:
  "io_bind (db_select t q) f w = f (q w) (w\<lparr>db_ops := db_ops w @ [DbSelect t]\<rparr>)"
  by (simp add: io_bind_def db_select_def)

lemma io_bind_now [simp]:
  "io_bind (now e) f w = f (clock e (ticks w)) (w\<lparr>ticks := Suc (ticks w)\<rparr>)"
  by (simp add: io_bind_def now_def)

lemma io_bind_db_write [simp]:
  "io_bind (db_write e op g) f w =
     (case db_refuses e (length (db_ops w)) of
        Some msg \<Rightarrow> f (Some msg) (w\<lparr>db_ops := db_ops w @ [op]\<rparr>)
      | None \<Rightarrow> f None (g (w\<lparr>db_ops := db_ops w @ [op]\<rparr>)))"
  by (simp add: io_bind_def db_write_def Let_def split: option.splits)

lemma io_bind_stripe_request [simp]:
  "io_bind (stripe_request c answer) f w =
     (case answer of
        Inl msg \<Rightarrow> (Inl (StripeError msg), w\<lparr>stripe_calls := stripe_calls w @ [c]\<rparr>)
      | Inr x \<Rightarrow> f x (w\<lparr>stripe_calls := stripe_calls w @ [c]\<rparr>))"
  by (simp add: io_bind_def stripe_request_def Let_def split: sum.splits)

lemma by_stripe_subscription_id_frame [simp]:
  "by_stripe_subscription_id i (w\<lparr>db_ops := a\<rparr>) = by_stripe_subscription_id i w"
  "by_stripe_subscription_id i (w\<lparr>stripe_calls := b\<rparr>) = by_stripe_subscription_id i w"
  "by_stripe_subscription_id i (w\<lparr>ticks := c\<rparr>) = by_stripe_subscription_id i w"
  "by_stripe_subscription_id i (w\<lparr>uuid_count := d\<rparr>) = by_stripe_subscription_id i w"
  by (simp_all add: by_stripe_subscription_id_def)

lemma by_id_frame [simp]:
  "by_id i (w\<lparr>db_ops := a\<rparr>) = by_id i w"
  "by_id i (w\<lparr>stripe_calls := b\<rparr>) = by_id i w"
  "by_id i (w\<lparr>ticks := c\<rparr>) = by_id i w"
  "by_id i (w\<lparr>uuid_count := d\<rparr>) = by_id i w"
  by (simp_all add: by_id_def)

lemma customer_mapping_user_frame [simp]:
  "customer_mapping_user i (w\<lparr>db_ops := a\<rparr>) = customer_mapping_user i w"
  "customer_mapping_user i (w\<lparr>stripe_calls := b\<rparr>) = customer_mapping_user i w"
  "customer_mapping_user i (w\<lparr>ticks := c\<rparr>) = customer_mapping_user i w"
  "customer_mapping_user i (w\<lparr>uuid_count := d\<rparr>) = customer_mapping_user i w"
  "customer_mapping_user i (w\<lparr>subscriptions := s\<rparr>) = customer_mapping_user i w"
  by (simp_all add: customer_mapping_user_def)

lemma resolved_user_frame [simp]:
  "resolved_user sub ex cid (w\<lparr>db_ops := a\<rparr>) = resolved_user sub ex cid w"
  "resolved_user sub ex cid (w\<lparr>stripe_calls := b\<rparr>) = resolved_user sub ex cid w"
  "resolved_user sub ex cid (w\<lparr>ticks := c\<rparr>) = resolved_user sub ex cid w"
  "resolved_user sub ex cid (w\<lparr>uuid_count := d\<rparr>) = resolved_user sub ex cid w"
  "resolved_user sub ex cid (w\<lparr>subscriptions := s\<rparr>) = resolved_user sub ex cid w"
  by (simp_all add: resolved_user_def)

lemma getById_eq:
  "getById i w =
     (if \<not> isValidUUID i then (Inl (BadRequestException ''Invalid subscription identifier''), w)
      else (case by_id i w of
              None \<Rightarrow> Inl (NotFoundException
                       (''Subscription with id '' @ [CHR 0x22] @ i @ [CHR 0x22] @ '' not found''))
            | Some r \<Rightarrow> Inr r,
            w\<lparr>db_ops := db_ops w @ [DbSelect subscriptions_table]\<rparr>))"
  by (simp add: getById_def split: option.splits)

lemma getById_found:
  assumes "getById i w = (Inr sub, w1)"
  shows "isValidUUID i" "by_id i w = Some sub"
    "w1 = w\<lparr>db_ops := db_ops w @ [DbSelect subscriptions_table]\<rparr>"
  using assms by (auto simp add: getById_eq split: if_splits option.splits)

lemma extractInvoiceUrl_eq:
  "extractInvoiceUrl e sub w =
     (Inr (sync_invoice_url e sub), w\<lparr>stripe_calls := stripe_calls w @ invoice_calls sub\<rparr>)"
  by (simp add: extractInvoiceUrl_def sync_invoice_url_def invoice_calls_def io_catch_def
      split: option.splits expandable.splits sum.splits)

lemma findPlanOfFirstItem_eq:
  "findPlanOfFirstItem e sub w =
     (Inr (sync_plan e sub), w\<lparr>db_ops := db_ops w @ plan_selects sub\<rparr>)"
  by (simp add: findPlanOfFirstItem_def sync_plan_def plan_selects_def plans_findByStripePrice_def
      db_select_def split: option.splits)

lemma resolveUserId_eq:
  "resolveUserId sub ex cid w =
     (Inr (resolved_user sub ex cid w),
      w\<lparr>db_ops := db_ops w @ (if truthy (map_option user_id ex) then []
                                else [DbSelect stripe_customers_table])\<rparr>)"
  by (simp add: resolveUserId_def resolved_user_def)

text \<open>Reconciliation, step by step: it returns after its reads when the customer or the
  owner is missing, fails when a date is out of range, and writes otherwise.\<close>

lemma syncFromStripe_eq:
  "syncFromStripe e sub c w =
     (case sync_target sub w of
        None \<Rightarrow>
          (Inr (), w\<lparr>db_ops := db_ops w @
                      (if truthy (stripeCustomerId sub) then sync_selects sub w
                       else [DbSelect subscriptions_table])\<rparr>)
      | Some (cid, uid) \<Rightarrow>
          if \<not> dates_in_range sub
          then (Inl RangeError,
                w\<lparr>db_ops := db_ops w @ sync_selects sub w @ plan_selects sub,
                  stripe_calls := stripe_calls w @ invoice_calls sub\<rparr>)
          else upsert e (by_stripe_subscription_id (stripe_id sub) w)
                 (sync_payload_at e sub c (by_stripe_subscription_id (stripe_id sub) w) cid uid
                    (clock e (ticks w)))
                 (w\<lparr>db_ops := db_ops w @ sync_selects sub w @ plan_selects sub,
                    stripe_calls := stripe_calls w @ invoice_calls sub,
                    ticks := Suc (ticks w)\<rparr>))"
  by (simp add: syncFromStripe_def findByStripeSubscriptionId_def
      io_bind_apply[OF resolveUserId_eq] io_bind_apply[OF findPlanOfFirstItem_eq]
      io_bind_apply[OF extractInvoiceUrl_eq] sync_target_def sync_selects_def truthy_def
      dates_in_range_def sync_payload_at_def
      split: option.splits)

lemma row_id_apply_updates [simp]: "row_id (apply_updates u r) = row_id r"
  by (simp add: apply_updates_def)

lemma filter_row_id_update:
  "filter (\<lambda>r. row_id r = i) (map (\<lambda>r. if row_id r = j then apply_updates u r else r) rows)
   = map (\<lambda>r. if row_id r = j then apply_updates u r else r) (filter (\<lambda>r. row_id r = i) rows)"
  by (induction rows) auto

lemma maybeSingle_Some: "maybeSingle xs = Some x \<longleftrightarrow> xs = [x]"
  by (auto simp add: maybeSingle_def split: list.splits)

lemma filter_singleton:
  assumes "filter P xs = [x]"
  shows "P x" "x \<in> set xs"
proof -
  have "x \<in> set (filter P xs)" using assms by simp
  then show "P x" "x \<in> set xs" by simp_all
qed

lemma by_id_Some:
  assumes "by_id i w = Some sub"
  shows "filter (\<lambda>r. row_id r = i) (subscriptions w) = [sub]" "row_id sub = i"
    "sub \<in> set (subscriptions w)"
proof -
  show f: "filter (\<lambda>r. row_id r = i) (subscriptions w) = [sub]"
    using assms by (simp add: by_id_def maybeSingle_Some)
  show "row_id sub = i" "sub \<in> set (subscriptions w)"
    using filter_singleton [OF f] by simp_all
qed

lemma by_id_update_rows:
  assumes "by_id i w = Some sub"
  shows "by_id i (update_rows u i w) = Some (apply_updates u sub)"
  using by_id_Some [OF assms]
  by (simp add: by_id_def update_rows_def filter_row_id_update maybeSingle_def)

lemma upsert_eq:
  "upsert e existing payload w =
     (case db_refuses e (length (db_ops w)) of
        Some msg \<Rightarrow>
          (Inl (InternalServerErrorException
                  ((case existing of
                      None \<Rightarrow> ''Failed to insert subscription: ''
                    | Some ex \<Rightarrow> if row_id ex \<noteq> [] then ''Failed to update subscription: ''
                               else ''Failed to insert subscription: '') @ msg)),
           w\<lparr>db_ops := db_ops w @
                 [case existing of
                    None \<Rightarrow> DbInsert subscriptions_table
                  | Some ex \<Rightarrow> if row_id ex \<noteq> [] then DbUpdate subscriptions_table
                             else DbInsert subscriptions_table]\<rparr>)
      | None \<Rightarrow>
          (Inr (),
           (case existing of
              None \<Rightarrow>
                (case set_user_id payload of
                   None \<Rightarrow> w\<lparr>db_ops := db_ops w @ [DbInsert subscriptions_table]\<rparr>
                 | Some uid \<Rightarrow>
                     insert_row e payload uid
                       (w\<lparr>db_ops := db_ops w @ [DbInsert subscriptions_table]\<rparr>))
            | Some ex \<Rightarrow>
                if row_id ex \<noteq> []
                then update_rows payload (row_id ex)
                       (w\<lparr>db_ops := db_ops w @ [DbUpdate subscriptions_table]\<rparr>)
                else (case set_user_id payload of
                        None \<Rightarrow> w\<lparr>db_ops := db_ops w @ [DbInsert subscriptions_table]\<rparr>
                      | Some uid \<Rightarrow>
                          insert_row e payload uid
                            (w\<lparr>db_ops := db_ops w @ [DbInsert subscriptions_table]\<rparr>)))))"
  by (simp add: upsert_def insert_subscription_def split: option.splits)

lemma upsert_effect:
  assumes "upsert e existing payload w = (res, w')"
  shows "stripe_customers w' = stripe_customers w"
    and "stripe_calls w' = stripe_calls w"
    and "subscriptions w' =
           (if res = Inr ()
            then upsert_rows existing payload (subscriptions w) (gen_random_uuid e (uuid_count w))
                   (clock e (ticks w))
            else subscriptions w)"
  using assms
  by (auto simp add: upsert_eq upsert_rows_def update_rows_def insert_row_def
      split: option.splits if_splits)

text \<open>What reconciliation leaves: the customer mapping as it was, and the table either as it
  was or with the one write of \<open>upsert_rows\<close>.\<close>

lemma syncFromStripe_effect:
  assumes "syncFromStripe e sub c w = (res, w')"
  shows "stripe_customers w' = stripe_customers w"
    and "stripe_calls w' = stripe_calls w
           @ (if sync_target sub w = None then [] else invoice_calls sub)"
    and "sync_target sub w = None \<Longrightarrow> res = Inr () \<and> subscriptions w' = subscriptions w"
    and "sync_target sub w = Some (cid, uid) \<Longrightarrow>
           subscriptions w' =
             (if res = Inr ()
              then upsert_rows (by_stripe_subscription_id (stripe_id sub) w)
                     (sync_payload_at e sub c (by_stripe_subscription_id (stripe_id sub) w)
                        cid uid (clock e (ticks w)))
                     (subscriptions w) (gen_random_uuid e (uuid_count w))
                     (clock e (Suc (ticks w)))
              else subscriptions w)"
proof -
  show "stripe_customers w' = stripe_customers w"
    using assms upsert_effect(1)
    by (fastforce simp add: syncFromStripe_eq split: option.splits if_splits)
  show "stripe_calls w' = stripe_calls w
           @ (if sync_target sub w = None then [] else invoice_calls sub)"
    using assms upsert_effect(2)
    by (fastforce simp add: syncFromStripe_eq split: option.splits if_splits)
  show "sync_target sub w = None \<Longrightarrow> res = Inr () \<and> subscriptions w' = subscriptions w"
    using assms by (auto simp add: syncFromStripe_eq)
  show "sync_target sub w = Some (cid, uid) \<Longrightarrow>
           subscriptions w' =
             (if res = Inr ()
              then upsert_rows (by_stripe_subscription_id (stripe_id sub) w)
                     (sync_payload_at e sub c (by_stripe_subscription_id (stripe_id sub) w)
                        cid uid (clock e (ticks w)))
                     (subscriptions w) (gen_random_uuid e (uuid_count w))
                     (clock e (Suc (ticks w)))
              else subscriptions w)"
    using assms upsert_effect(3)
    by (fastforce simp add: syncFromStripe_eq split: if_splits)
qed

lemma valid_id_a: "isValidUUID id_a"
  by code_simp

lemma by_stripe_subscription_id_Some:
  assumes "by_stripe_subscription_id sid w = Some ex"
  shows "rows_of sid w = [ex]" "stripe_subscription_id ex = Some sid" "ex \<in> set (subscriptions w)"
proof -
  show f: "rows_of sid w = [ex]"
    using assms by (simp add: by_stripe_subscription_id_def rows_of_def maybeSingle_Some)
  show "stripe_subscription_id ex = Some sid" "ex \<in> set (subscriptions w)"
    using filter_singleton [OF f [unfolded rows_of_def]] by simp_all
qed


lemma sync_payload_at_fields [simp]:
  "set_user_id (sync_payload_at e sub c ex cid uid t) = Some uid"
  "set_stripe_subscription_id (sync_payload_at e sub c ex cid uid t) = Some (Some (stripe_id sub))"
  "set_pause_reason (sync_payload_at e sub c ex cid uid t)
     = Some (map_option behavior (stripe_pause_collection sub))"
  "set_status (sync_payload_at e sub c ex cid uid t) = Some (mapStripeStatus sub)"
  by (simp_all add: sync_payload_at_def syncPayload_def Let_def)

lemma apply_updates_written:
  "set_user_id p = Some uid \<Longrightarrow> user_id (apply_updates p r) = uid"
  "set_stripe_subscription_id p = Some v \<Longrightarrow> stripe_subscription_id (apply_updates p r) = v"
  "set_pause_reason p = Some x \<Longrightarrow> pause_reason (apply_updates p r) = x"
  "set_status p = Some s \<Longrightarrow> status (apply_updates p r) = s"
  by (simp_all add: apply_updates_def put_def)

text \<open>Every row that carries the external id after the write is a row that was written.\<close>

lemma upsert_rows_written:
  assumes one: "length (filter (\<lambda>r. stripe_subscription_id r = Some sid) rows) \<le> 1"
      and ids: "\<forall>r\<in>set rows. row_id r \<noteq> []"
      and ex: "existing = maybeSingle (filter (\<lambda>r. stripe_subscription_id r = Some sid) rows)"
      and p: "set_stripe_subscription_id p = Some (Some sid)" "set_user_id p = Some uid"
      and r: "r \<in> set (upsert_rows existing p rows i t)" "stripe_subscription_id r = Some sid"
  shows "\<exists>r0. r = apply_updates p r0"
proof (cases existing)
  case None
  then have "filter (\<lambda>r. stripe_subscription_id r = Some sid) rows = []"
    using one ex
    by (cases "filter (\<lambda>r. stripe_subscription_id r = Some sid) rows")
       (auto simp add: maybeSingle_def split: list.splits)
  then have "\<forall>x\<in>set rows. stripe_subscription_id x \<noteq> Some sid"
    by (simp add: filter_empty_conv)
  then show ?thesis
    using r None p by (auto simp add: upsert_rows_def)
next
  case (Some x)
  then have f: "filter (\<lambda>r. stripe_subscription_id r = Some sid) rows = [x]"
    using ex by (simp add: maybeSingle_Some)
  have x: "x \<in> set rows" using filter_singleton [OF f] by simp
  then have nonempty: "row_id x \<noteq> []" using ids by simp
  have only: "\<And>y. y \<in> set rows \<Longrightarrow> stripe_subscription_id y = Some sid \<Longrightarrow> y = x"
  proof -
    fix y assume "y \<in> set rows" "stripe_subscription_id y = Some sid"
    then have "y \<in> set (filter (\<lambda>r. stripe_subscription_id r = Some sid) rows)" by simp
    then show "y = x" using f by simp
  qed
  show ?thesis
    using r Some nonempty only by (auto simp add: upsert_rows_def split: if_splits)
qed

lemma upsert_rows_has_row:
  assumes "existing = None \<or> (\<exists>ex. existing = Some ex \<and> ex \<in> set rows)"
      and "set_user_id p = Some uid"
  shows "\<exists>r0. apply_updates p r0 \<in> set (upsert_rows existing p rows i t)"
  using assms
  by (cases existing) (auto simp add: upsert_rows_def intro!: exI image_eqI)


lemma io_bind_cases:
  assumes "io_bind m f w = (res, w')"
  obtains (throws) err where "m w = (Inl err, w')" "res = Inl err"
        | (returns) x w1 where "m w = (Inr x, w1)" "f x w1 = (res, w')"
  using assms by (auto simp add: io_bind_def split: prod.splits sum.splits)

lemma resolvePrice_frame:
  assumes "resolvePrice e dto w = (res, w')"
  shows "subscriptions w' = subscriptions w" "stripe_customers w' = stripe_customers w"
    "stripe_calls w' = stripe_calls w"
  using assms
  by (auto simp add: resolvePrice_def plans_findOne_def plans_findByStripePrice_def
      split: option.splits if_splits)

text \<open>Reconciliation keeps the owner of a row that has one.\<close>

lemma sync_keeps_owner:
  assumes row: "filter (\<lambda>r. row_id r = i) (subscriptions w) = [sub]"
      and owner: "user_id sub \<noteq> []"
      and run: "syncFromStripe e snapshot c w = (res, w')"
  shows "owner_of i w' = Some (user_id sub)"
proof (cases "sync_target snapshot w")
  case None
  then show ?thesis using syncFromStripe_effect(3) [OF run] row by (simp add: owner_of_def)
next
  case (Some a)
  obtain cid uid where a: "a = (cid, uid)" by (cases a)
  let ?ex = "by_stripe_subscription_id (stripe_id snapshot) w"
  let ?p = "sync_payload_at e snapshot c ?ex cid uid (clock e (ticks w))"
  have target: "sync_target snapshot w = Some (cid, uid)" using Some a by simp
  have sub: "row_id sub = i" "sub \<in> set (subscriptions w)"
    using filter_singleton [OF row] by simp_all
  show ?thesis
  proof (cases "res = Inr ()")
    case False
    then show ?thesis using syncFromStripe_effect(4) [OF run target] row
      by (simp add: owner_of_def)
  next
    case True
    then have rows: "subscriptions w' =
        upsert_rows ?ex ?p (subscriptions w) (gen_random_uuid e (uuid_count w))
          (clock e (Suc (ticks w)))"
      using syncFromStripe_effect(4) [OF run target] by simp
    show ?thesis
    proof (cases "\<exists>x. ?ex = Some x \<and> row_id x \<noteq> []")
      case False
      then have "\<exists>new. subscriptions w' = subscriptions w @ [new]"
        using rows by (cases ?ex) (auto simp add: upsert_rows_def)
      then show ?thesis using row by (auto simp add: owner_of_def)
    next
      case True
      then obtain x where x: "?ex = Some x" "row_id x \<noteq> []" by blast
      have xin: "x \<in> set (subscriptions w)"
        using by_stripe_subscription_id_Some(3) [OF x(1)] .
      have upd: "subscriptions w' =
          map (\<lambda>r. if row_id r = row_id x then apply_updates ?p r else r) (subscriptions w)"
        using rows x by (simp add: upsert_rows_def)
      have f: "filter (\<lambda>r. row_id r = i) (subscriptions w')
                 = [if row_id sub = row_id x then apply_updates ?p sub else sub]"
        using row by (simp add: upd filter_row_id_update)
      have same: "row_id sub = row_id x \<Longrightarrow> x = sub"
      proof -
        assume "row_id sub = row_id x"
        then have "x \<in> set (filter (\<lambda>r. row_id r = i) (subscriptions w))"
          using xin sub(1) by simp
        then show "x = sub" using row by simp
      qed
      have "row_id sub = row_id x \<Longrightarrow> uid = user_id sub"
      proof -
        assume eq: "row_id sub = row_id x"
        have "resolved_user snapshot (Some sub) cid w = Some uid"
          using target x(1) same [OF eq]
          by (auto simp add: sync_target_def split: option.splits if_splits)
        then show "uid = user_id sub"
          using owner by (simp add: resolved_user_def)
      qed
      then show ?thesis
        using f by (auto simp add: apply_updates_written owner_of_def)
    qed
  qed
qed

lemma sync_keeps_owner_frame:
  assumes "syncFromStripe e snapshot c w0 = (res, w')"
      and "subscriptions w0 = subscriptions w"
      and "filter (\<lambda>r. row_id r = i) (subscriptions w) = [sub]"
      and "user_id sub \<noteq> []"
  shows "owner_of i w' = Some (user_id sub)"
  using sync_keeps_owner [of i w0 sub e snapshot c res w'] assms by simp

lemma sync_then_returnD:
  "io_bind (syncFromStripe e s c) (\<lambda>_. io_return x) w = (res, w')
   \<Longrightarrow> \<exists>r0. syncFromStripe e s c w = (r0, w')"
  by (auto simp add: io_bind_def split: prod.splits sum.splits)

lemma update_external_keeps_owner:
  assumes row: "filter (\<lambda>r. row_id r = i) (subscriptions w) = [sub]"
      and owner: "user_id sub \<noteq> []"
      and run: "update_external e stripeId dto w = (res, w')"
  shows "owner_of i w' = Some (user_id sub)"
proof (cases "api_subscriptions_retrieve e stripeId")
  case (Inl msg)
  then have "subscriptions w' = subscriptions w"
    using run by (auto simp add: update_external_def)
  then show ?thesis using row by (simp add: owner_of_def)
next
  case (Inr currentStripe)
  let ?w1 = "w\<lparr>stripe_calls := stripe_calls w @ [SubscriptionsRetrieve stripeId]\<rparr>"
  obtain r2 w2 where price: "resolvePrice e dto ?w1 = (r2, w2)"
    by (cases "resolvePrice e dto ?w1")
  have row2: "filter (\<lambda>r. row_id r = i) (subscriptions w2) = [sub]"
    using resolvePrice_frame(1) [OF price] row by simp
  have thrown: "subscriptions w' = subscriptions w2 \<Longrightarrow> ?thesis"
    using row2 by (simp add: owner_of_def)
  show ?thesis
    using run Inr row2 thrown
    by (auto simp add: update_external_def io_bind_apply [where m = "resolvePrice e dto", OF price]
        Let_def
        split: sum.splits if_splits
        dest!: sync_then_returnD
        intro: sync_keeps_owner_frame [where w = w2, OF _ _ row2 owner])
qed


lemma owner_of_by_id: "by_id i w = Some r \<Longrightarrow> owner_of i w = Some (user_id r)"
  using by_id_Some(1) [of i w r] by (simp add: owner_of_def)

lemma owner_of_update_rows:
  "set_user_id u = None \<Longrightarrow> owner_of i (update_rows u j w) = owner_of i w"
  by (cases "filter (\<lambda>r. row_id r = i) (subscriptions w)")
     (auto simp add: owner_of_def update_rows_def filter_row_id_update apply_updates_def put_def)

lemma owner_of_frame:
  "subscriptions w' = subscriptions w \<Longrightarrow> owner_of i w' = owner_of i w"
  by (simp add: owner_of_def)

lemma update_updates_user_id [simp]: "set_user_id (update_updates sub dto merged t) = None"
  by (simp add: update_updates_def Let_def)

lemma getById_owner:
  assumes "getById i w = (Inr r, w')"
  shows "owner_of i w = Some (user_id r)"
  using owner_of_by_id [OF getById_found(2) [OF assms]] .

lemma update_tail_owner:
  assumes run: "io_bind
            (if k
             then io_bind (db_write e (DbUpdate subscriptions_table) (update_rows u i))
                    (\<lambda>error. case error of
                        Some msg \<Rightarrow> io_throw (InternalServerErrorException
                                      (''Failed to update subscription: '' @ msg))
                      | None \<Rightarrow> io_return ())
             else io_return ())
            (\<lambda>_. getById i) w = (Inr r, w')"
      and u: "set_user_id u = None"
  shows "owner_of i w = Some (user_id r)"
proof (cases k)
  case False
  then have "getById i w = (Inr r, w')" using run by simp
  then show ?thesis by (rule getById_owner)
next
  case True
  show ?thesis
  proof (cases "db_refuses e (length (db_ops w))")
    case (Some msg)
    then show ?thesis using run True by simp
  next
    case None
    let ?w = "update_rows u i (w\<lparr>db_ops := db_ops w @ [DbUpdate subscriptions_table]\<rparr>)"
    have "getById i ?w = (Inr r, w')"
      using run True None by simp
    then have "owner_of i ?w = Some (user_id r)" by (rule getById_owner)
    then have "owner_of i (w\<lparr>db_ops := db_ops w @ [DbUpdate subscriptions_table]\<rparr>)
                 = Some (user_id r)"
      by (simp add: owner_of_update_rows [OF u])
    then show ?thesis
      by (simp add: owner_of_def)
  qed
qed

lemma update_keeps_owner:
  assumes found: "getById i w = (Inr sub, w1)"
      and owner: "user_id sub \<noteq> []"
      and run: "update e i requesterId dto isAdmin w = (Inr r, w')"
  shows "user_id r = user_id sub"
proof -
  note f = getById_found [OF found]
  have row: "filter (\<lambda>r. row_id r = i) (subscriptions w1) = [sub]"
    using by_id_Some(1) [OF f(2)] f(3) by simp
  let ?phase = "case external_id sub of
                  None \<Rightarrow> io_return False
                | Some stripeId \<Rightarrow> update_external e stripeId dto"
  obtain rm w2 where phase: "?phase w1 = (rm, w2)"
    by (cases "?phase w1")
  have kept: "owner_of i w2 = Some (user_id sub)"
  proof (cases "external_id sub")
    case None
    then show ?thesis using phase row by (auto simp add: owner_of_def)
  next
    case (Some stripeId)
    then show ?thesis using phase update_external_keeps_owner [OF row owner] by simp
  qed
  have access: "ensureAccess sub requesterId isAdmin w1 = (Inr (), w1)"
    using run by (auto simp add: update_def io_bind_apply [where m = "getById i", OF found]
        ensureAccess_def split: if_splits)
  have run2: "io_bind ?phase (\<lambda>metadataMerged.
     io_bind (now e) (\<lambda>nowIso.
       let updates = update_updates sub dto metadataMerged nowIso
       in io_bind
            (if keys_length updates > 1
             then io_bind (db_write e (DbUpdate subscriptions_table) (update_rows updates i))
                    (\<lambda>error. case error of
                        Some msg \<Rightarrow> io_throw (InternalServerErrorException
                                      (''Failed to update subscription: '' @ msg))
                      | None \<Rightarrow> io_return ())
             else io_return ())
            (\<lambda>_. getById i))) w1 = (Inr r, w')"
    using run
    by (simp add: update_def io_bind_apply [where m = "getById i", OF found]
        io_bind_apply [where m = "ensureAccess sub requesterId isAdmin", OF access])
  obtain m where m: "rm = Inr m"
    using run2 by (cases rm) (simp_all add: io_bind_apply [where m = ?phase, OF phase])
  let ?u = "update_updates sub dto m (clock e (ticks w2))"
  have tail: "io_bind
            (if keys_length ?u > 1
             then io_bind (db_write e (DbUpdate subscriptions_table) (update_rows ?u i))
                    (\<lambda>error. case error of
                        Some msg \<Rightarrow> io_throw (InternalServerErrorException
                                      (''Failed to update subscription: '' @ msg))
                      | None \<Rightarrow> io_return ())
             else io_return ())
            (\<lambda>_. getById i) (w2\<lparr>ticks := Suc (ticks w2)\<rparr>) = (Inr r, w')"
    using run2 m by (simp add: io_bind_apply [where m = ?phase, OF phase] Let_def)
  have "owner_of i (w2\<lparr>ticks := Suc (ticks w2)\<rparr>) = Some (user_id r)"
    using update_tail_owner [OF tail] by simp
  then show ?thesis using kept by (simp add: owner_of_def)
qed


lemma calls_addedD:
  "calls_added ok m \<Longrightarrow> m w = (res, w')
   \<Longrightarrow> \<exists>cs. stripe_calls w' = stripe_calls w @ cs \<and> list_all ok cs"
  unfolding calls_added_def by blast

lemma calls_added_return [intro!]: "calls_added ok (io_return x)"
  by (simp add: calls_added_def)

lemma calls_added_throw [intro!]: "calls_added ok (io_throw x)"
  by (simp add: calls_added_def)

lemma calls_added_bind [intro!]:
  assumes "calls_added ok m" "\<And>x. calls_added ok (f x)"
  shows "calls_added ok (io_bind m f)"
proof (unfold calls_added_def, intro allI impI)
  fix w res w' assume run: "io_bind m f w = (res, w')"
  from run show "\<exists>cs. stripe_calls w' = stripe_calls w @ cs \<and> list_all ok cs"
  proof (cases rule: io_bind_cases)
    case (throws err)
    then show ?thesis using calls_addedD [OF assms(1)] by blast
  next
    case (returns x w1)
    obtain cs where cs: "stripe_calls w1 = stripe_calls w @ cs" "list_all ok cs"
      using calls_addedD [OF assms(1) returns(1)] by blast
    obtain ds where ds: "stripe_calls w' = stripe_calls w1 @ ds" "list_all ok ds"
      using calls_addedD [OF assms(2) returns(2)] by blast
    show ?thesis using cs ds by (intro exI [of _ "cs @ ds"]) simp
  qed
qed

lemma calls_added_if [intro!]:
  "calls_added ok a \<Longrightarrow> calls_added ok b \<Longrightarrow> calls_added ok (if c then a else b)"
  by simp

lemma calls_added_option [intro!]:
  "calls_added ok a \<Longrightarrow> (\<And>x. calls_added ok (b x))
   \<Longrightarrow> calls_added ok (case v of None \<Rightarrow> a | Some x \<Rightarrow> b x)"
  by (cases v) simp_all

lemma calls_added_select [intro!]: "calls_added ok (db_select t q)"
  by (simp add: calls_added_def db_select_def)

lemma calls_added_write [intro!]:
  "(\<And>w. stripe_calls (g w) = stripe_calls w) \<Longrightarrow> calls_added ok (db_write e op g)"
  by (auto simp add: calls_added_def db_write_def Let_def split: option.splits)

lemma calls_added_now [intro!]: "calls_added ok (now e)"
  by (simp add: calls_added_def now_def)

lemma calls_added_request [intro]:
  "ok c \<Longrightarrow> calls_added ok (stripe_request c answer)"
  by (auto simp add: calls_added_def stripe_request_def Let_def split: sum.splits)

lemma calls_added_getById [intro!]: "calls_added ok (getById i)"
  by (auto simp add: getById_def)

lemma calls_added_ensureAccess [intro!]: "calls_added ok (ensureAccess sub r a)"
  by (auto simp add: ensureAccess_def)

lemma list_all_invoice_calls:
  "(\<And>i. ok (InvoicesRetrieve i)) \<Longrightarrow> list_all ok (invoice_calls sub)"
  by (simp add: invoice_calls_def split: option.splits expandable.splits)

lemma calls_added_sync [intro]:
  assumes "\<And>i. ok (InvoicesRetrieve i)"
  shows "calls_added ok (syncFromStripe e sub c)"
  using syncFromStripe_effect(2) list_all_invoice_calls [of ok sub, OF assms]
  by (fastforce simp add: calls_added_def)

lemma calls_added_cancel: "calls_added cancel_or_invoice (cancel e i requesterId dto isAdmin)"
  unfolding cancel_def
  by (intro calls_added_bind calls_added_getById calls_added_ensureAccess calls_added_if
      calls_added_throw calls_added_option calls_added_return calls_added_request
      calls_added_sync calls_added_now calls_added_write)
     (simp_all add: cancel_or_invoice_def update_rows_def)

lemma calls_added_deleteRow: "calls_added ok (deleteRow e i)"
  unfolding deleteRow_def
  by (intro calls_added_bind calls_added_write calls_added_option calls_added_throw
      calls_added_return) (simp add: delete_rows_def)

lemma calls_added_remove:
  "calls_added cancel_or_invoice (remove_subscription e i requesterId isAdmin)"
  unfolding remove_subscription_def
  by (intro calls_added_bind calls_added_getById calls_added_ensureAccess calls_added_if
      calls_added_throw calls_added_return calls_added_cancel calls_added_deleteRow)

lemma deleteRow_eq:
  "deleteRow e i w =
     (case db_refuses e (length (db_ops w)) of
        Some msg \<Rightarrow> (Inl (InternalServerErrorException (''Failed to delete subscription: '' @ msg)),
                     w\<lparr>db_ops := db_ops w @ [DbDelete subscriptions_table]\<rparr>)
      | None \<Rightarrow> (Inr (), delete_rows i (w\<lparr>db_ops := db_ops w @ [DbDelete subscriptions_table]\<rparr>)))"
  by (simp add: deleteRow_def split: option.splits)

lemma deleteRow_deleted:
  "deleteRow e i w = (Inr x, w') \<Longrightarrow> filter (\<lambda>r. row_id r = i) (subscriptions w') = []"
  by (auto simp add: deleteRow_eq delete_rows_def filter_empty_conv split: option.splits)

lemma remove_deleted:
  assumes "remove_subscription e i requesterId isAdmin w = (Inr x, w')"
  shows "filter (\<lambda>r. row_id r = i) (subscriptions w') = []"
  using assms unfolding remove_subscription_def
  by (auto elim!: io_bind_cases dest: deleteRow_deleted split: if_splits)


lemma request_first:
  assumes run: "io_bind (stripe_request c answer) f w = (res, w')"
      and rest: "\<And>x. calls_added ok (f x)"
  shows "\<exists>cs. stripe_calls w' = stripe_calls w @ c # cs \<and> list_all ok cs"
proof (cases answer)
  case (Inl msg)
  then show ?thesis using run by auto
next
  case (Inr x)
  then have "f x (w\<lparr>stripe_calls := stripe_calls w @ [c]\<rparr>) = (res, w')"
    using run by simp
  from calls_addedD [OF rest this] show ?thesis by auto
qed

lemma cancel_external_calls:
  assumes found: "getById i w = (Inr sub, w1)"
      and access: "isAdmin \<or> user_id sub = requesterId"
      and status: "status sub \<noteq> Canceled"
      and ext: "external_id sub = Some stripeId"
      and run: "cancel e i requesterId dto isAdmin w = (res, w')"
  shows "\<exists>cs. stripe_calls w' = stripe_calls w @ SubscriptionsCancel stripeId False False # cs
           \<and> list_all cancel_or_invoice cs"
proof -
  have calls: "stripe_calls w1 = stripe_calls w"
    using getById_found(3) [OF found] by simp
  have ok: "ensureAccess sub requesterId isAdmin = io_return ()"
    using access by (auto simp add: ensureAccess_def)
  show ?thesis
    using run status ext calls
    by (auto simp add: cancel_def io_bind_apply [where m = "getById i", OF found] ok
        cancel_or_invoice_def update_rows_def
        simp del: io_bind_stripe_request io_bind_now io_bind_db_write
        dest!: request_first [where ok = cancel_or_invoice]
        intro!: calls_added_bind calls_added_sync calls_added_now calls_added_write
        calls_added_option calls_added_throw calls_added_getById)
qed


lemma deleteRow_no_calls:
  assumes "deleteRow e i w = (res, w')"
  shows "stripe_calls w' = stripe_calls w"
proof -
  obtain cs where "stripe_calls w' = stripe_calls w @ cs" "list_all (\<lambda>c. False) cs"
    using calls_addedD [OF calls_added_deleteRow assms] by blast
  then show ?thesis by (cases cs) simp_all
qed

lemma getById_again:
  assumes "getById i w = (Inr sub, w1)"
  shows "getById i w1 = (Inr sub, w1\<lparr>db_ops := db_ops w1 @ [DbSelect subscriptions_table]\<rparr>)"
  using getById_found [OF assms] by (simp add: getById_eq)

lemma remove_denied:
  assumes found: "getById i w = (Inr sub, w1)"
      and "\<not> isAdmin" "user_id sub = requesterId" "status sub \<noteq> Canceled" "status sub \<noteq> Expired"
  shows "remove_subscription e i requesterId isAdmin w
                = (Inl (BadRequestException
                          ''Only canceled or expired subscriptions can be deleted''), w1)"
  using assms(2-)
  by (simp add: remove_subscription_def io_bind_apply [where m = "getById i", OF found]
          ensureAccess_def)

lemma io_bind_ignore:
  "io_bind (io_bind m (\<lambda>_. io_return ())) f w
     = (case m w of (Inl err, w2) \<Rightarrow> (Inl err, w2) | (Inr x, w2) \<Rightarrow> f () w2)"
  by (simp add: io_bind_def split: prod.splits sum.splits)

lemma remove_permitted:
  assumes found: "getById i w = (Inr sub, w1)"
      and permitted: "isAdmin \<or> (user_id sub = requesterId
                         \<and> (status sub = Canceled \<or> status sub = Expired))"
  shows "remove_subscription e i requesterId isAdmin w
                = (if external_id sub \<noteq> None \<and> status sub \<noteq> Canceled
                   then (case cancel e i requesterId
                                \<lparr> cancel_reason_dto = Some ''Deleted via API'',
                                  cancel_stripe_invoice_url_dto = None \<rparr> isAdmin w1 of
                           (Inl err, w2) \<Rightarrow> (Inl err, w2)
                         | (Inr canceled, w2) \<Rightarrow> deleteRow e i w2)
                   else deleteRow e i w1)"
proof -
  have ok: "ensureAccess sub requesterId isAdmin = io_return ()"
    using permitted by (auto simp add: ensureAccess_def)
  have pass: "\<not> (\<not> isAdmin \<and> status sub \<notin> set [Canceled, Expired])"
    using permitted by auto
  have "remove_subscription e i requesterId isAdmin w
      = io_bind
       (if external_id sub \<noteq> None \<and> status sub \<noteq> Canceled
        then io_bind (cancel e i requesterId
                        \<lparr> cancel_reason_dto = Some ''Deleted via API'',
                          cancel_stripe_invoice_url_dto = None \<rparr> isAdmin)
               (\<lambda>_. io_return ())
        else io_return ()) (\<lambda>_. deleteRow e i) w1"
    unfolding remove_subscription_def
    by (simp only: io_bind_apply [where m = "getById i", OF found] ok pass
        io_bind_return sum.case if_False)
  then show ?thesis
    by (simp add: io_bind_ignore del: io_bind_assoc)
qed


lemma remove_cancel_first:
  assumes found: "getById i w = (Inr sub, w1)"
      and permitted: "isAdmin \<or> (user_id sub = requesterId
                         \<and> (status sub = Canceled \<or> status sub = Expired))"
      and ext: "external_id sub = Some stripeId" "status sub \<noteq> Canceled"
  shows "\<exists>cs. stripe_calls (snd (remove_subscription e i requesterId isAdmin w))
                 = stripe_calls w @ SubscriptionsCancel stripeId False False # cs
              \<and> list_all cancel_or_invoice cs"
proof -
  let ?dto = "\<lparr> cancel_reason_dto = Some ''Deleted via API'',
                 cancel_stripe_invoice_url_dto = None \<rparr>"
  have calls1: "stripe_calls w1 = stripe_calls w"
    using getById_found(3) [OF found] by simp
  obtain rc w2 where c: "cancel e i requesterId ?dto isAdmin w1 = (rc, w2)"
    by (cases "cancel e i requesterId ?dto isAdmin w1")
  have access: "isAdmin \<or> user_id sub = requesterId" using permitted by auto
  obtain cs where cs: "stripe_calls w2
                         = stripe_calls w1 @ SubscriptionsCancel stripeId False False # cs"
      "list_all cancel_or_invoice cs"
    using cancel_external_calls [OF getById_again [OF found] access ext(2) ext(1) c] by blast
  have eq: "remove_subscription e i requesterId isAdmin w
              = (case rc of Inl err \<Rightarrow> (Inl err, w2) | Inr canceled \<Rightarrow> deleteRow e i w2)"
    using remove_permitted [OF found permitted, of e] ext c by (simp split: sum.splits)
  have "stripe_calls (snd (remove_subscription e i requesterId isAdmin w)) = stripe_calls w2"
  proof (cases rc)
    case (Inl err)
    then show ?thesis using eq by simp
  next
    case (Inr canceled)
    then have "remove_subscription e i requesterId isAdmin w = deleteRow e i w2"
      using eq by simp
    then show ?thesis
      using deleteRow_no_calls [of e i w2] by (cases "deleteRow e i w2") simp
  qed
  then show ?thesis using cs calls1 by simp
qed

lemma remove_without_cancel:
  assumes found: "getById i w = (Inr sub, w1)"
      and permitted: "isAdmin \<or> (user_id sub = requesterId
                         \<and> (status sub = Canceled \<or> status sub = Expired))"
      and ext: "external_id sub = None \<or> status sub = Canceled"
  shows "stripe_calls (snd (remove_subscription e i requesterId isAdmin w)) = stripe_calls w"
proof -
  have calls1: "stripe_calls w1 = stripe_calls w"
    using getById_found(3) [OF found] by simp
  have "remove_subscription e i requesterId isAdmin w = deleteRow e i w1"
    using remove_permitted [OF found permitted, of e] ext by auto
  then show ?thesis
    using deleteRow_no_calls [of e i w1] calls1 by (cases "deleteRow e i w1") simp
qed

lemma io_bind_run:
  "io_bind m f w = (case m w of (Inl err, w') \<Rightarrow> (Inl err, w') | (Inr x, w') \<Rightarrow> f x w')"
  by (simp add: io_bind_def)

lemma example_getById:
  "getById id_a ((example_world [example_row id_a u x st])\<lparr>db_ops := ops\<rparr>)
     = (Inr (example_row id_a u x st),
        (example_world [example_row id_a u x st])\<lparr>db_ops := ops @ [DbSelect subscriptions_table]\<rparr>)"
  by (simp add: getById_eq valid_id_a by_id_def maybeSingle_def example_world_def
      example_row_def)

lemma example_cancel:
  "\<not> isl (fst (cancel example_env id_a user_v
     \<lparr> cancel_reason_dto = Some ''Deleted via API'', cancel_stripe_invoice_url_dto = None \<rparr> True
     ((example_world [example_row id_a user_u (Some ''sub_1'') Active])
         \<lparr>db_ops := [DbSelect subscriptions_table]\<rparr>)))"
  apply (simp only: cancel_def io_bind_apply [where m = "getById id_a", OF example_getById])
  apply (simp add: ensureAccess_def external_id_def example_row_def)
  apply (simp add: example_env_def io_bind_run [where m = "syncFromStripe e s c" for e s c]
        syncFromStripe_eq)
  apply (simp add: sync_target_def by_stripe_subscription_id_def stripeCustomerId_def
        example_snapshot_def resolved_user_def user_u_def example_world_def maybeSingle_def
        dates_in_range_def in_date_range_def upsert_eq sync_selects_def plan_selects_def
        first_price_def invoice_calls_def update_rows_def truthy_def)
  apply (simp add: id_a_def getById_eq valid_id_a [unfolded id_a_def] by_id_def maybeSingle_def)
  done

lemma valid_user_u: "isValidUUID user_u"
  by code_simp

lemma ensureUserCanStartNew_blocked:
  assumes "r \<in> set (subscriptions w)" and "user_id r = u"
      and "status r \<in> set (ACTIVE_STATUSES @ [Paused])"
  shows "ensureUserCanStartNew u w
           = (Inl (BadRequestException ''An active subscription already exists for this user''),
              w\<lparr>db_ops := db_ops w @ [DbSelect subscriptions_table]\<rparr>)"
proof -
  have "filter (\<lambda>r. user_id r = u \<and> status r \<in> set (ACTIVE_STATUSES @ [Paused]))
          (subscriptions w) \<noteq> []"
    using assms by (auto simp add: filter_empty_conv)
  then have "blocking_rows u w \<noteq> []"
    by (simp add: blocking_rows_def)
  then show ?thesis
    by (simp add: ensureUserCanStartNew_def)
qed



















subsection \<open>C2: the canonical status\<close>

text \<open>
  C2. The status that reconciliation derives from a snapshot is \<open>Paused\<close> whenever the snapshot
  carries a pause-collection setting, whatever its external status; otherwise it is the entry
  of the specification's table for the external status, and \<open>Expired\<close> for every status that
  is not in the table. This derived status is the one in the object that reconciliation writes.
\<close>

theorem mapStripeStatus_table:
  "mapStripeStatus sub
     = canonical_status (stripe_pause_collection sub \<noteq> None) (stripe_status sub)
   \<and> set_status (syncPayload sub existing userId customerId plan' invoiceUrl metadata' nowIso)
     = Some (mapStripeStatus sub)"
  by (simp add: mapStripeStatus_def canonical_status_def status_table_def syncPayload_def Let_def)

theorem mapStripeStatus_table_witness:
  "mapStripeStatus (example_snapshot ''sub_1'' None ''past_due'' None) = PastDue
   \<and> mapStripeStatus (example_snapshot ''sub_1'' None ''paused'' None) = Expired
   \<and> mapStripeStatus (example_snapshot ''sub_1'' None ''active''
                        (Some \<lparr> behavior = ''void'' \<rparr>)) = Paused"
  using mapStripeStatus_table [of "example_snapshot ''sub_1'' None ''past_due'' None"]
    mapStripeStatus_table [of "example_snapshot ''sub_1'' None ''paused'' None"]
    mapStripeStatus_table [of "example_snapshot ''sub_1'' None ''active''
                                 (Some \<lparr> behavior = ''void'' \<rparr>)"]
  by (simp add: canonical_status_def status_table_def example_snapshot_def)

subsection \<open>C10: a snapshot without a customer\<close>

text \<open>
  C10 as stated fails: before it looks at the customer, reconciliation has already queried
  the subscriptions table for a row with the external id of the snapshot. Here the snapshot
  has no customer, and the log of datastore operations holds that query.
\<close>

theorem sync_without_customer_reads:
  "stripeCustomerId (example_snapshot ''sub_1'' None ''active'' None) = None
   \<and> db_ops (snd (syncFromStripe example_env (example_snapshot ''sub_1'' None ''active'' None)
                    empty_obj (example_world [])))
     = [DbSelect subscriptions_table]"
  by (simp add: syncFromStripe_eq sync_target_def stripeCustomerId_def example_snapshot_def
      example_world_def truthy_def)

text \<open>
  C10, amended. For every snapshot whose customer field gives no customer identifier (no
  customer, an object without an id, or an empty id), reconciliation returns without an error;
  it writes no row, calls the gateway not at all and leaves the clock alone. Its one datastore
  operation is the initial lookup of the row by the external subscription id. A \<^verbatim>\<open>user_id\<close>
  hint in the metadata changes nothing.
\<close>

theorem sync_without_customer:
  assumes "\<not> truthy (stripeCustomerId sub)"
  shows "syncFromStripe e sub c w
           = (Inr (), w\<lparr>db_ops := db_ops w @ [DbSelect subscriptions_table]\<rparr>)"
  using assms
  by (simp add: syncFromStripe_eq sync_target_def truthy_def split: option.splits)

theorem sync_without_customer_witness:
  "\<not> truthy (stripeCustomerId (example_snapshot ''sub_1'' (Some (CustomerObject None)) ''active'' None))
   \<and> metadata_user_id (example_snapshot ''sub_1'' (Some (CustomerObject None)) ''active'' None)
       = Some user_u
   \<and> syncFromStripe example_env
        (example_snapshot ''sub_1'' (Some (CustomerObject None)) ''active'' None) empty_obj
        (example_world [])
     = (Inr (), (example_world [])\<lparr>db_ops := [DbSelect subscriptions_table]\<rparr>)"
  using sync_without_customer [of "example_snapshot ''sub_1'' (Some (CustomerObject None)) ''active'' None"
      example_env empty_obj "example_world []"]
  by (simp add: stripeCustomerId_def truthy_def example_snapshot_def metadata_user_id_def
      example_world_def)

subsection \<open>C4: the guards of pause, resume and cancel\<close>

text \<open>
  C4. For every stored subscription and every caller who is allowed to act on it:
  \<^verbatim>\<open>pause\<close> raises the business-rule error (a \<^verbatim>\<open>BadRequestException\<close>) unless the status is one
  of active, trialing, past_due, unpaid, incomplete; \<^verbatim>\<open>resume\<close> raises it unless the status is
  paused; \<^verbatim>\<open>cancel\<close> raises it when the status is already canceled. A caller who is not
  allowed gets the authorization error instead. In each of these failures the world is the one
  that the lookup of the row left: no row has changed and no call has gone to the gateway.
\<close>

theorem transition_guards:
  assumes "getById i w = (Inr sub, w1)"
  shows "(status sub \<notin> set ACTIVE_STATUSES \<longrightarrow>
           pause e i requesterId pauseDto isAdmin w
             = (Inl (if isAdmin \<or> user_id sub = requesterId
                     then BadRequestException ''Only active subscriptions can be paused''
                     else ForbiddenException ''You are not allowed to access this subscription''),
                w1))
       \<and> (status sub \<noteq> Paused \<longrightarrow>
           resume e i requesterId resumeDto isAdmin w
             = (Inl (if isAdmin \<or> user_id sub = requesterId
                     then BadRequestException ''Only paused subscriptions can be resumed''
                     else ForbiddenException ''You are not allowed to access this subscription''),
                w1))
       \<and> (status sub = Canceled \<longrightarrow>
           cancel e i requesterId cancelDto isAdmin w
             = (Inl (if isAdmin \<or> user_id sub = requesterId
                     then BadRequestException ''Subscription is already canceled''
                     else ForbiddenException ''You are not allowed to access this subscription''),
                w1))
       \<and> subscriptions w1 = subscriptions w \<and> stripe_calls w1 = stripe_calls w"
  using getById_found(3) [OF assms]
  by (simp add: pause_def resume_def cancel_def io_bind_apply [where m = "getById i", OF assms]
      ensureAccess_def)

theorem transition_guards_witness:
  "getById id_a (example_world [example_row id_a user_u (Some ''sub_1'') Canceled])
     = (Inr (example_row id_a user_u (Some ''sub_1'') Canceled),
        (example_world [example_row id_a user_u (Some ''sub_1'') Canceled])
          \<lparr>db_ops := [DbSelect subscriptions_table]\<rparr>)
   \<and> pause example_env id_a user_u \<lparr> pause_reason_dto = None \<rparr> False
       (example_world [example_row id_a user_u (Some ''sub_1'') Canceled])
     = (Inl (BadRequestException ''Only active subscriptions can be paused''),
        (example_world [example_row id_a user_u (Some ''sub_1'') Canceled])
          \<lparr>db_ops := [DbSelect subscriptions_table]\<rparr>)
   \<and> resume example_env id_a user_u
       \<lparr> resume_plan_dto = None, resume_stripe_invoice_url_dto = None \<rparr> False
       (example_world [example_row id_a user_u (Some ''sub_1'') Canceled])
     = (Inl (BadRequestException ''Only paused subscriptions can be resumed''),
        (example_world [example_row id_a user_u (Some ''sub_1'') Canceled])
          \<lparr>db_ops := [DbSelect subscriptions_table]\<rparr>)
   \<and> cancel example_env id_a user_u
       \<lparr> cancel_reason_dto = None, cancel_stripe_invoice_url_dto = None \<rparr> False
       (example_world [example_row id_a user_u (Some ''sub_1'') Canceled])
     = (Inl (BadRequestException ''Subscription is already canceled''),
        (example_world [example_row id_a user_u (Some ''sub_1'') Canceled])
          \<lparr>db_ops := [DbSelect subscriptions_table]\<rparr>)"
proof -
  have g: "getById id_a (example_world [example_row id_a user_u (Some ''sub_1'') Canceled])
     = (Inr (example_row id_a user_u (Some ''sub_1'') Canceled),
        (example_world [example_row id_a user_u (Some ''sub_1'') Canceled])
          \<lparr>db_ops := [DbSelect subscriptions_table]\<rparr>)"
    by (simp add: getById_eq valid_id_a by_id_def maybeSingle_def example_world_def
        example_row_def)
  show ?thesis
    using g transition_guards [OF g, of example_env user_u "\<lparr> pause_reason_dto = None \<rparr>" False
        "\<lparr> resume_plan_dto = None, resume_stripe_invoice_url_dto = None \<rparr>"
        "\<lparr> cancel_reason_dto = None, cancel_stripe_invoice_url_dto = None \<rparr>"]
    by (simp add: example_row_def ACTIVE_STATUSES_def)
qed

subsection \<open>C8: resuming a local-only subscription\<close>

text \<open>
  C8. A paused subscription without an external subscription id is resumed by a caller who may
  act on it. When the datastore accepts the write, \<^verbatim>\<open>resume\<close> succeeds and returns the stored
  row: its status is active, \<^verbatim>\<open>ended_at\<close> and \<^verbatim>\<open>pause_reason\<close> are null, and \<^verbatim>\<open>started_at\<close> is
  the current time if it was null before and is unchanged otherwise. No call goes to the
  gateway.
\<close>

theorem resume_local_only:
  assumes found: "getById i w = (Inr sub, w1)"
      and access: "isAdmin \<or> user_id sub = requesterId"
      and paused: "status sub = Paused"
      and local_only: "stripe_subscription_id sub = None"
      and accepted: "db_refuses e (length (db_ops w1)) = None"
  shows "\<exists>r w'. resume e i requesterId dto isAdmin w = (Inr r, w')
           \<and> by_id i w' = Some r
           \<and> r = apply_updates (resume_updates sub dto (clock e (ticks w))) sub
           \<and> status r = Active
           \<and> ended_at r = None
           \<and> pause_reason r = None
           \<and> started_at r = (case started_at sub of
                               None \<Rightarrow> Some (clock e (ticks w))
                             | Some t \<Rightarrow> Some t)
           \<and> stripe_calls w' = stripe_calls w"
proof -
  note f = getById_found [OF found]
  have ext: "external_id sub = None"
    using local_only by (simp add: external_id_def)
  let ?u = "resume_updates sub dto (clock e (ticks w))"
  have b: "by_id i (update_rows ?u i w) = Some (apply_updates ?u sub)"
    using by_id_update_rows [OF f(2)] .
  have fields: "status (apply_updates ?u sub) = Active"
    "ended_at (apply_updates ?u sub) = None"
    "pause_reason (apply_updates ?u sub) = None"
    "started_at (apply_updates ?u sub)
       = (case started_at sub of None \<Rightarrow> Some (clock e (ticks w)) | Some t \<Rightarrow> Some t)"
    using ext by (simp_all add: resume_updates_def apply_updates_def put_def Let_def
        no_updates_def split: option.splits)
  have run: "resume e i requesterId dto isAdmin w
      = (Inr (apply_updates ?u sub),
         (update_rows ?u i
            (w\<lparr>db_ops := db_ops w @ [DbSelect subscriptions_table, DbUpdate subscriptions_table],
                ticks := Suc (ticks w)\<rparr>))
         \<lparr>db_ops := db_ops w @ [DbSelect subscriptions_table, DbUpdate subscriptions_table,
                                 DbSelect subscriptions_table]\<rparr>)"
    using access paused ext accepted f(1) b [unfolded by_id_def update_rows_def, simplified]
    by (auto simp add: resume_def io_bind_apply [where m = "getById i", OF found]
        ensureAccess_def f(3) getById_eq update_rows_def by_id_def)
  show ?thesis
    using run b fields by (simp add: update_rows_def by_id_def)
qed

theorem resume_local_only_witness:
  "getById id_a (example_world [example_row id_a user_u None Paused])
     = (Inr (example_row id_a user_u None Paused),
        (example_world [example_row id_a user_u None Paused])
          \<lparr>db_ops := [DbSelect subscriptions_table]\<rparr>)
   \<and> started_at (example_row id_a user_u None Paused) = None
   \<and> ended_at (example_row id_a user_u None Paused) = Some 1700000500000
   \<and> pause_reason (example_row id_a user_u None Paused) = Some ''on holiday''
   \<and> fst (resume example_env id_a user_u
            \<lparr> resume_plan_dto = None, resume_stripe_invoice_url_dto = None \<rparr> False
            (example_world [example_row id_a user_u None Paused]))
     = Inr ((example_row id_a user_u None Paused)
              \<lparr> status := Active, started_at := Some 1700000900000, ended_at := None,
                pause_reason := None, last_event_at := Some 1700000900000 \<rparr>)"
proof -
  have g: "getById id_a (example_world [example_row id_a user_u None Paused])
     = (Inr (example_row id_a user_u None Paused),
        (example_world [example_row id_a user_u None Paused])
          \<lparr>db_ops := [DbSelect subscriptions_table]\<rparr>)"
    by (simp add: getById_eq valid_id_a by_id_def maybeSingle_def example_world_def
        example_row_def)
  have "\<exists>r w'. resume example_env id_a user_u
            \<lparr> resume_plan_dto = None, resume_stripe_invoice_url_dto = None \<rparr> False
            (example_world [example_row id_a user_u None Paused]) = (Inr r, w')
          \<and> r = apply_updates
                  (resume_updates (example_row id_a user_u None Paused)
                     \<lparr> resume_plan_dto = None, resume_stripe_invoice_url_dto = None \<rparr>
                     (clock example_env (ticks (example_world [example_row id_a user_u None Paused]))))
                  (example_row id_a user_u None Paused)"
    using resume_local_only [OF g, of False user_u example_env
        "\<lparr> resume_plan_dto = None, resume_stripe_invoice_url_dto = None \<rparr>"]
    by (simp add: example_row_def example_env_def) blast
  then have "fst (resume example_env id_a user_u
            \<lparr> resume_plan_dto = None, resume_stripe_invoice_url_dto = None \<rparr> False
            (example_world [example_row id_a user_u None Paused]))
     = Inr (apply_updates
              (resume_updates (example_row id_a user_u None Paused)
                 \<lparr> resume_plan_dto = None, resume_stripe_invoice_url_dto = None \<rparr>
                 (clock example_env (ticks (example_world [example_row id_a user_u None Paused]))))
              (example_row id_a user_u None Paused))"
    by auto
  then show ?thesis
    using g
    by (simp add: example_row_def example_env_def example_world_def resume_updates_def
        apply_updates_def put_def external_id_def no_updates_def truthy_def Let_def)
qed

subsection \<open>C6: the owner of a reconciled subscription\<close>

text \<open>
  C6. For a snapshot with a customer id, reconciliation takes as owner the first that resolves
  of: the user id of the local row with the external subscription id, the user id of the
  customer mapping for the customer id, the \<^verbatim>\<open>user_id\<close> of the metadata of the snapshot. When one
  resolves, the row that a successful reconciliation leaves for the external id has that owner.
  When none resolves, reconciliation returns without an error after its two lookups: it
  inserts and updates nothing and calls the gateway not at all.
\<close>

theorem owner_resolution:
  assumes customer: "stripeCustomerId sub = Some cid" "cid \<noteq> []"
      and existing: "existing = by_stripe_subscription_id (stripe_id sub) w"
  shows "(first_resolving [map_option user_id existing, customer_mapping_user cid w,
                           metadata_user_id sub] = None
          \<longrightarrow> syncFromStripe e sub c w
                = (Inr (), w\<lparr>db_ops := db_ops w @ [DbSelect subscriptions_table,
                                                   DbSelect stripe_customers_table]\<rparr>))
       \<and> (first_resolving [map_option user_id existing, customer_mapping_user cid w,
                           metadata_user_id sub] = Some uid
          \<longrightarrow> fst (resolveUserId sub existing cid w) = Inr (Some uid)
              \<and> (\<forall>w'. syncFromStripe e sub c w = (Inr (), w')
                     \<longrightarrow> (\<exists>r\<in>set (subscriptions w').
                            stripe_subscription_id r = Some (stripe_id sub) \<and> user_id r = uid)))"
proof -
  let ?a = "map_option user_id existing"
  let ?b = "customer_mapping_user cid w"
  let ?h = "metadata_user_id sub"
  have unresolved: "first_resolving [?a, ?b, ?h] = None
         \<longrightarrow> syncFromStripe e sub c w
               = (Inr (), w\<lparr>db_ops := db_ops w @ [DbSelect subscriptions_table,
                                                  DbSelect stripe_customers_table]\<rparr>)"
  proof
    assume none: "first_resolving [?a, ?b, ?h] = None"
    then have falsy: "\<not> truthy ?a" "\<not> truthy ?b" "\<not> truthy ?h"
      by (auto split: if_splits)
    then have "sync_target sub w = None"
      using customer existing
      by (auto simp add: sync_target_def resolved_user_def truthy_def split: option.splits)
    then show "syncFromStripe e sub c w
               = (Inr (), w\<lparr>db_ops := db_ops w @ [DbSelect subscriptions_table,
                                                  DbSelect stripe_customers_table]\<rparr>)"
      using customer falsy(1) existing
      by (simp add: syncFromStripe_eq sync_selects_def truthy_def)
  qed
  have resolved: "first_resolving [?a, ?b, ?h] = Some uid
         \<longrightarrow> fst (resolveUserId sub existing cid w) = Inr (Some uid)
             \<and> (\<forall>w'. syncFromStripe e sub c w = (Inr (), w')
                    \<longrightarrow> (\<exists>r\<in>set (subscriptions w').
                           stripe_subscription_id r = Some (stripe_id sub) \<and> user_id r = uid))"
  proof (intro impI conjI allI)
    assume some: "first_resolving [?a, ?b, ?h] = Some uid"
    then have res: "resolved_user sub existing cid w = Some uid" and uid: "uid \<noteq> []"
      by (auto simp add: resolved_user_def truthy_def split: if_splits)
    show "fst (resolveUserId sub existing cid w) = Inr (Some uid)"
      using res by (simp add: resolveUserId_eq)
    fix w' assume run: "syncFromStripe e sub c w = (Inr (), w')"
    have target: "sync_target sub w = Some (cid, uid)"
      using customer existing res uid by (simp add: sync_target_def)
    let ?p = "sync_payload_at e sub c existing cid uid (clock e (ticks w))"
    have rows: "subscriptions w' =
        upsert_rows existing ?p (subscriptions w) (gen_random_uuid e (uuid_count w))
          (clock e (Suc (ticks w)))"
      using syncFromStripe_effect(4) [OF run target] existing by simp
    have "existing = None \<or> (\<exists>ex. existing = Some ex \<and> ex \<in> set (subscriptions w))"
      using existing by_stripe_subscription_id_Some(3) [of "stripe_id sub" w]
      by (cases existing) auto
    then obtain r0 where "apply_updates ?p r0 \<in> set (subscriptions w')"
      using upsert_rows_has_row [of existing "subscriptions w" ?p uid] rows by auto
    then show "\<exists>r\<in>set (subscriptions w').
                 stripe_subscription_id r = Some (stripe_id sub) \<and> user_id r = uid"
      by (auto simp add: apply_updates_written intro!: bexI)
  qed
  show ?thesis using unresolved resolved by blast
qed

theorem owner_resolution_witness:
  "first_resolving
     [map_option user_id
        (by_stripe_subscription_id ''sub_1''
           ((example_world [])\<lparr>stripe_customers := [example_customer]\<rparr>)),
      customer_mapping_user ''cus_1'' ((example_world [])\<lparr>stripe_customers := [example_customer]\<rparr>),
      metadata_user_id (example_snapshot ''sub_1'' (Some (CustomerId ''cus_1'')) ''active'' None)]
     = Some user_v
   \<and> metadata_user_id (example_snapshot ''sub_1'' (Some (CustomerId ''cus_1'')) ''active'' None)
       = Some user_u
   \<and> fst (resolveUserId (example_snapshot ''sub_1'' (Some (CustomerId ''cus_1'')) ''active'' None)
            (by_stripe_subscription_id ''sub_1''
               ((example_world [])\<lparr>stripe_customers := [example_customer]\<rparr>))
            ''cus_1'' ((example_world [])\<lparr>stripe_customers := [example_customer]\<rparr>))
       = Inr (Some user_v)
   \<and> syncFromStripe example_env orphan_snapshot empty_obj (example_world [])
       = (Inr (), (example_world [])\<lparr>db_ops := [DbSelect subscriptions_table,
                                                 DbSelect stripe_customers_table]\<rparr>)"
proof -
  let ?w = "(example_world [])\<lparr>stripe_customers := [example_customer]\<rparr>"
  let ?s = "example_snapshot ''sub_1'' (Some (CustomerId ''cus_1'')) ''active'' None"
  have first: "first_resolving
     [map_option user_id (by_stripe_subscription_id ''sub_1'' ?w),
      customer_mapping_user ''cus_1'' ?w, metadata_user_id ?s] = Some user_v"
    by (simp add: by_stripe_subscription_id_def customer_mapping_user_def maybeSingle_def
        example_world_def example_customer_def metadata_user_id_def example_snapshot_def
        truthy_def user_v_def)
  have hint: "metadata_user_id ?s = Some user_u"
    by (simp add: metadata_user_id_def example_snapshot_def)
  have none: "first_resolving
     [map_option user_id (by_stripe_subscription_id (stripe_id orphan_snapshot) (example_world [])),
      customer_mapping_user ''cus_9'' (example_world []), metadata_user_id orphan_snapshot] = None"
    by (simp add: by_stripe_subscription_id_def customer_mapping_user_def maybeSingle_def
        example_world_def metadata_user_id_def orphan_snapshot_def example_snapshot_def
        truthy_def)
  have a: "fst (resolveUserId ?s (by_stripe_subscription_id ''sub_1'' ?w) ''cus_1'' ?w)
             = Inr (Some user_v)"
    using owner_resolution [where sub = ?s and cid = "''cus_1''" and w = ?w and uid = user_v
        and existing = "by_stripe_subscription_id ''sub_1'' ?w", THEN conjunct2] first
    by (simp add: stripeCustomerId_def example_snapshot_def)
  have b: "syncFromStripe example_env orphan_snapshot empty_obj (example_world [])
       = (Inr (), (example_world [])\<lparr>db_ops := [DbSelect subscriptions_table,
                                                 DbSelect stripe_customers_table]\<rparr>)"
    using owner_resolution [where sub = orphan_snapshot and cid = "''cus_9''"
        and existing = "by_stripe_subscription_id (stripe_id orphan_snapshot) (example_world [])"
        and w = "example_world []" and e = example_env and c = empty_obj, THEN conjunct1] none
    by (simp add: stripeCustomerId_def orphan_snapshot_def example_snapshot_def
        example_world_def)
  show ?thesis using first hint a b by simp
qed

subsection \<open>C9: the pause reason after reconciliation\<close>

text \<open>
  C9. The table holds at most one row for the external id of the snapshot (the column is
  \<^verbatim>\<open>UNIQUE\<close>) and every row has an id. When customer and owner resolve and reconciliation
  completes, there is a row for the external id, and the \<^verbatim>\<open>pause_reason\<close> of every such row is the
  \<^verbatim>\<open>behavior\<close> of the pause-collection setting of the snapshot, or null when the snapshot has
  none: whatever was stored before is gone. The objects that \<^verbatim>\<open>cancel\<close> writes after its
  reconciliation, and \<^verbatim>\<open>update\<close> when the request names no pause reason, do not touch the
  column, so they do not bring the earlier text back.
\<close>

theorem sync_overwrites_pause_reason:
  assumes unique: "length (rows_of (stripe_id sub) w) \<le> 1"
      and ids: "\<forall>r\<in>set (subscriptions w). row_id r \<noteq> []"
      and writes: "sync_target sub w \<noteq> None"
      and run: "syncFromStripe e sub c w = (Inr (), w')"
  shows "rows_of (stripe_id sub) w' \<noteq> []
       \<and> (\<forall>r\<in>set (rows_of (stripe_id sub) w').
            pause_reason r = map_option behavior (stripe_pause_collection sub))
       \<and> set_pause_reason (cancel_updates row cancelDto t) = None
       \<and> (dto_pause_reason updateDto = None
            \<longrightarrow> set_pause_reason (update_updates row updateDto merged t) = None)"
proof -
  obtain cid uid where target: "sync_target sub w = Some (cid, uid)"
    using writes by (cases "sync_target sub w") auto
  let ?ex = "by_stripe_subscription_id (stripe_id sub) w"
  let ?p = "sync_payload_at e sub c ?ex cid uid (clock e (ticks w))"
  have rows: "subscriptions w' =
      upsert_rows ?ex ?p (subscriptions w) (gen_random_uuid e (uuid_count w))
        (clock e (Suc (ticks w)))"
    using syncFromStripe_effect(4) [OF run target] by simp
  have "?ex = None \<or> (\<exists>x. ?ex = Some x \<and> x \<in> set (subscriptions w))"
    using by_stripe_subscription_id_Some(3) [of "stripe_id sub" w] by (cases ?ex) auto
  then obtain r0 where "apply_updates ?p r0 \<in> set (subscriptions w')"
    using upsert_rows_has_row [of ?ex "subscriptions w" ?p uid] rows by auto
  then have "apply_updates ?p r0 \<in> set (rows_of (stripe_id sub) w')"
    by (simp add: rows_of_def apply_updates_written)
  then have nonempty: "rows_of (stripe_id sub) w' \<noteq> []"
    by auto
  have all: "\<forall>r\<in>set (rows_of (stripe_id sub) w').
            pause_reason r = map_option behavior (stripe_pause_collection sub)"
  proof
    fix r assume "r \<in> set (rows_of (stripe_id sub) w')"
    then have r: "r \<in> set (upsert_rows ?ex ?p (subscriptions w)
                            (gen_random_uuid e (uuid_count w)) (clock e (Suc (ticks w))))"
        "stripe_subscription_id r = Some (stripe_id sub)"
      using rows by (simp_all add: rows_of_def)
    have "\<exists>r1. r = apply_updates ?p r1"
    proof (rule upsert_rows_written)
      show "length (filter (\<lambda>r. stripe_subscription_id r = Some (stripe_id sub))
                      (subscriptions w)) \<le> 1"
        using unique by (simp add: rows_of_def)
      show "\<forall>r\<in>set (subscriptions w). row_id r \<noteq> []"
        by (rule ids)
      show "?ex = maybeSingle (filter (\<lambda>r. stripe_subscription_id r = Some (stripe_id sub))
                                (subscriptions w))"
        by (simp add: by_stripe_subscription_id_def)
      show "set_stripe_subscription_id ?p = Some (Some (stripe_id sub))"
        by simp
      show "set_user_id ?p = Some uid"
        by simp
      show "r \<in> set (upsert_rows ?ex ?p (subscriptions w)
                         (gen_random_uuid e (uuid_count w)) (clock e (Suc (ticks w))))"
        by (rule r(1))
      show "stripe_subscription_id r = Some (stripe_id sub)"
        by (rule r(2))
    qed
    then obtain r1 where "r = apply_updates ?p r1"
      by blast
    then show "pause_reason r = map_option behavior (stripe_pause_collection sub)"
      by (simp add: apply_updates_written)
  qed
  have local: "set_pause_reason (cancel_updates row cancelDto t) = None"
    "dto_pause_reason updateDto = None
       \<longrightarrow> set_pause_reason (update_updates row updateDto merged t) = None"
    by (simp_all add: cancel_updates_def update_updates_def no_updates_def Let_def
        split: option.splits)
  show ?thesis using nonempty all local by blast
qed

theorem sync_overwrites_pause_reason_witness:
  "map pause_reason (subscriptions (example_world [example_row id_a user_u (Some ''sub_1'') Active]))
     = [Some ''on holiday'']
   \<and> fst (syncFromStripe example_env
            (example_snapshot ''sub_1'' (Some (CustomerId ''cus_1'')) ''active'' None) empty_obj
            (example_world [example_row id_a user_u (Some ''sub_1'') Active]))
     = Inr ()
   \<and> rows_of ''sub_1''
        (snd (syncFromStripe example_env
               (example_snapshot ''sub_1'' (Some (CustomerId ''cus_1'')) ''active'' None) empty_obj
               (example_world [example_row id_a user_u (Some ''sub_1'') Active]))) \<noteq> []
   \<and> list_all (\<lambda>r. pause_reason r = None)
        (rows_of ''sub_1''
          (snd (syncFromStripe example_env
                 (example_snapshot ''sub_1'' (Some (CustomerId ''cus_1'')) ''active'' None)
                 empty_obj
                 (example_world [example_row id_a user_u (Some ''sub_1'') Active]))))"
proof -
  let ?w = "example_world [example_row id_a user_u (Some ''sub_1'') Active]"
  let ?s = "example_snapshot ''sub_1'' (Some (CustomerId ''cus_1'')) ''active'' None"
  have before: "map pause_reason (subscriptions ?w) = [Some ''on holiday'']"
    by (simp add: example_world_def example_row_def)
  have ex: "by_stripe_subscription_id ''sub_1'' ?w
              = Some (example_row id_a user_u (Some ''sub_1'') Active)"
    by (simp add: by_stripe_subscription_id_def maybeSingle_def example_world_def
        example_row_def)
  have target: "sync_target ?s ?w = Some (''cus_1'', user_u)"
    using ex
    by (simp add: sync_target_def stripeCustomerId_def example_snapshot_def resolved_user_def
        example_row_def user_u_def)
  have ok: "fst (syncFromStripe example_env ?s empty_obj ?w) = Inr ()"
    using ex target
    by (simp add: syncFromStripe_eq upsert_eq dates_in_range_def in_date_range_def
        example_snapshot_def example_env_def example_world_def example_row_def id_a_def)
  then obtain w' where run: "syncFromStripe example_env ?s empty_obj ?w = (Inr (), w')"
    by (cases "syncFromStripe example_env ?s empty_obj ?w") auto
  have "rows_of (stripe_id ?s) w' \<noteq> []
       \<and> (\<forall>r\<in>set (rows_of (stripe_id ?s) w').
            pause_reason r = map_option behavior (stripe_pause_collection ?s))"
    using sync_overwrites_pause_reason [OF _ _ _ run] target
    by (simp add: rows_of_def example_world_def example_row_def example_snapshot_def id_a_def)
  then show ?thesis
    using before ok run by (simp add: example_snapshot_def list_all_iff)
qed

subsection \<open>C5: what the local writes leave alone\<close>

text \<open>
  C5. The object that \<^verbatim>\<open>update\<close> writes never has the key \<^verbatim>\<open>user_id\<close>, and the row that a
  successful \<^verbatim>\<open>update\<close> returns has the owner that the row had before (the row has an owner:
  the column is a non-null identifier), whatever the request holds. For a row with an external
  subscription id (non-null and, as the code tests it by truthiness, non-empty) the objects that
  \<^verbatim>\<open>update\<close>, \<^verbatim>\<open>pause\<close> and \<^verbatim>\<open>cancel\<close> write locally have none of the keys \<^verbatim>\<open>status\<close>,
  \<^verbatim>\<open>current_period_start\<close>, \<^verbatim>\<open>current_period_end\<close>; the object that reconciliation writes has
  all three. For a local-only row the object of \<^verbatim>\<open>update\<close> takes \<^verbatim>\<open>status\<close>, \<^verbatim>\<open>plan\<close> and
  \<^verbatim>\<open>plan_id\<close> from the request, and the datastore stores the requested status.
\<close>

theorem local_writes_frame:
  "set_user_id (update_updates sub dto merged t) = None
   \<and> (\<forall>w w1 r w'. getById i w = (Inr sub, w1) \<and> user_id sub \<noteq> []
          \<and> update e i requesterId dto isAdmin w = (Inr r, w')
        \<longrightarrow> user_id r = user_id sub)
   \<and> (\<forall>stripeId. stripe_subscription_id sub = Some stripeId \<and> stripeId \<noteq> [] \<longrightarrow>
          set_status (update_updates sub dto merged t) = None
        \<and> set_current_period_start (update_updates sub dto merged t) = None
        \<and> set_current_period_end (update_updates sub dto merged t) = None
        \<and> set_status (pause_updates sub pauseDto t) = None
        \<and> set_current_period_start (pause_updates sub pauseDto t) = None
        \<and> set_current_period_end (pause_updates sub pauseDto t) = None
        \<and> set_status (cancel_updates sub cancelDto t) = None
        \<and> set_current_period_start (cancel_updates sub cancelDto t) = None
        \<and> set_current_period_end (cancel_updates sub cancelDto t) = None)
   \<and> (stripe_subscription_id sub = None \<longrightarrow>
          set_status (update_updates sub dto merged t) = dto_status dto
        \<and> set_plan (update_updates sub dto merged t)
            = (if truthy (dto_plan dto) then Some (dto_plan dto) else None)
        \<and> set_plan_id (update_updates sub dto merged t)
            = (if truthy (dto_plan_id dto) then Some (dto_plan_id dto) else None)
        \<and> status (apply_updates (update_updates sub dto merged t) sub)
            = (case dto_status dto of Some s \<Rightarrow> s | None \<Rightarrow> status sub))
   \<and> set_status (syncPayload snapshot existing userId customerId plan' invoiceUrl metadata' t')
       \<noteq> None
   \<and> set_current_period_start
        (syncPayload snapshot existing userId customerId plan' invoiceUrl metadata' t') \<noteq> None
   \<and> set_current_period_end
        (syncPayload snapshot existing userId customerId plan' invoiceUrl metadata' t') \<noteq> None"
proof -
  have owner: "\<forall>w w1 r w'. getById i w = (Inr sub, w1) \<and> user_id sub \<noteq> []
          \<and> update e i requesterId dto isAdmin w = (Inr r, w')
        \<longrightarrow> user_id r = user_id sub"
    using update_keeps_owner by blast
  have external: "\<forall>stripeId. stripe_subscription_id sub = Some stripeId \<and> stripeId \<noteq> [] \<longrightarrow>
          set_status (update_updates sub dto merged t) = None
        \<and> set_current_period_start (update_updates sub dto merged t) = None
        \<and> set_current_period_end (update_updates sub dto merged t) = None
        \<and> set_status (pause_updates sub pauseDto t) = None
        \<and> set_current_period_start (pause_updates sub pauseDto t) = None
        \<and> set_current_period_end (pause_updates sub pauseDto t) = None
        \<and> set_status (cancel_updates sub cancelDto t) = None
        \<and> set_current_period_start (cancel_updates sub cancelDto t) = None
        \<and> set_current_period_end (cancel_updates sub cancelDto t) = None"
    by (simp add: update_updates_def pause_updates_def cancel_updates_def external_id_def
        no_updates_def Let_def split: option.splits)
  have local_only: "stripe_subscription_id sub = None \<longrightarrow>
          set_status (update_updates sub dto merged t) = dto_status dto
        \<and> set_plan (update_updates sub dto merged t)
            = (if truthy (dto_plan dto) then Some (dto_plan dto) else None)
        \<and> set_plan_id (update_updates sub dto merged t)
            = (if truthy (dto_plan_id dto) then Some (dto_plan_id dto) else None)
        \<and> status (apply_updates (update_updates sub dto merged t) sub)
            = (case dto_status dto of Some s \<Rightarrow> s | None \<Rightarrow> status sub)"
    by (auto simp add: update_updates_def external_id_def no_updates_def Let_def
        apply_updates_def put_def split: option.splits)
  have sync: "set_status (syncPayload snapshot existing userId customerId plan' invoiceUrl
                metadata' t') \<noteq> None"
    "set_current_period_start
        (syncPayload snapshot existing userId customerId plan' invoiceUrl metadata' t') \<noteq> None"
    "set_current_period_end
        (syncPayload snapshot existing userId customerId plan' invoiceUrl metadata' t') \<noteq> None"
    by (simp_all add: syncPayload_def Let_def)
  show ?thesis
    using update_updates_user_id owner external local_only sync by blast
qed

theorem local_writes_frame_witness:
  "dto_user_id example_update = Some user_v
   \<and> fst (update example_env id_a user_u example_update False
            (example_world [example_row id_a user_u None Active]))
     = Inr ((example_row id_a user_u None Active)
              \<lparr> plan := Some ''team'', status := Canceled,
                last_event_at := Some 1700000900000 \<rparr>)
   \<and> user_id ((example_row id_a user_u None Active)
                \<lparr> plan := Some ''team'', status := Canceled,
                  last_event_at := Some 1700000900000 \<rparr>) = user_u
   \<and> set_status (update_updates (example_row id_a user_u (Some ''sub_1'') Active)
                   example_update True 1700000900000) = None
   \<and> set_status (update_updates (example_row id_a user_u None Active)
                   example_update False 1700000900000) = Some Canceled"
proof -
  let ?w = "example_world [example_row id_a user_u None Active]"
  let ?r = "(example_row id_a user_u None Active)
              \<lparr> plan := Some ''team'', status := Canceled,
                last_event_at := Some 1700000900000 \<rparr>"
  have g: "getById id_a ?w
     = (Inr (example_row id_a user_u None Active), ?w\<lparr>db_ops := [DbSelect subscriptions_table]\<rparr>)"
    by (simp add: getById_eq valid_id_a by_id_def maybeSingle_def example_world_def
        example_row_def)
  have run: "fst (update example_env id_a user_u example_update False ?w) = Inr ?r"
    apply (simp only: update_def io_bind_apply [where m = "getById id_a", OF g])
    apply (simp add: ensureAccess_def
        external_id_def update_updates_def example_update_def keys_length_def has_key_def
        no_updates_def Let_def getById_eq valid_id_a by_id_def maybeSingle_def update_rows_def
        apply_updates_def put_def example_row_def example_world_def example_env_def)
    done
  then obtain w' where run': "update example_env id_a user_u example_update False ?w = (Inr ?r, w')"
    by (cases "update example_env id_a user_u example_update False ?w") auto
  note inst = local_writes_frame [where sub = "example_row id_a user_u None Active"
      and dto = example_update and i = id_a and e = example_env and requesterId = user_u
      and isAdmin = False and merged = False and t = 1700000900000]
  have owner: "user_id ?r = user_u"
    using inst g run' by (auto simp add: example_row_def user_u_def)
  have local_only: "set_status (update_updates (example_row id_a user_u None Active)
                   example_update False 1700000900000) = Some Canceled"
    using inst by (simp add: example_row_def example_update_def)
  have external: "set_status (update_updates (example_row id_a user_u (Some ''sub_1'') Active)
                   example_update True 1700000900000) = None"
    using local_writes_frame [where sub = "example_row id_a user_u (Some ''sub_1'') Active"
      and dto = example_update and merged = True and t = 1700000900000]
    by (simp add: example_row_def)
  show ?thesis
    using run owner local_only external by (simp add: example_update_def)
qed

subsection \<open>C7: deleting a subscription\<close>

text \<open>
  C7. For a stored row, \<^verbatim>\<open>remove\<close> answers a caller who is not an administrator and owns a
  row that is neither canceled nor expired with the \<^verbatim>\<open>BadRequestException\<close>
  \<^verbatim>\<open>Only canceled or expired subscriptions can be deleted\<close>, leaving the tables and the
  gateway log as they were. For an administrator, or an owner of a canceled or expired row,
  it runs \<^verbatim>\<open>cancel\<close> with the reason \<^verbatim>\<open>Deleted via API\<close> first when the row has an external
  subscription id and is not canceled, and then deletes the local row; in that case its first
  gateway call is the cancellation of that external subscription (without invoicing, without
  proration), and when the row has no external id or is already canceled it calls the gateway
  not at all. Whatever the run, every gateway call that \<^verbatim>\<open>remove\<close> adds is such a cancellation
  or the retrieval of an invoice (there is no request that deletes at the gateway), and after a
  successful return no row with the identifier is left.
\<close>

theorem remove_rules:
  assumes found: "getById i w = (Inr sub, w1)"
  shows "(\<not> isAdmin \<and> user_id sub = requesterId \<and> status sub \<noteq> Canceled \<and> status sub \<noteq> Expired
          \<longrightarrow> remove_subscription e i requesterId isAdmin w
                = (Inl (BadRequestException
                          ''Only canceled or expired subscriptions can be deleted''), w1))
       \<and> (isAdmin \<or> (user_id sub = requesterId \<and> (status sub = Canceled \<or> status sub = Expired))
          \<longrightarrow> remove_subscription e i requesterId isAdmin w
                = (if external_id sub \<noteq> None \<and> status sub \<noteq> Canceled
                   then (case cancel e i requesterId
                                \<lparr> cancel_reason_dto = Some ''Deleted via API'',
                                  cancel_stripe_invoice_url_dto = None \<rparr> isAdmin w1 of
                           (Inl err, w2) \<Rightarrow> (Inl err, w2)
                         | (Inr canceled, w2) \<Rightarrow> deleteRow e i w2)
                   else deleteRow e i w1)
              \<and> (\<forall>stripeId. external_id sub = Some stripeId \<and> status sub \<noteq> Canceled
                    \<longrightarrow> (\<exists>cs. stripe_calls (snd (remove_subscription e i requesterId isAdmin w))
                                 = stripe_calls w @ SubscriptionsCancel stripeId False False # cs
                              \<and> list_all cancel_or_invoice cs))
              \<and> (external_id sub = None \<or> status sub = Canceled
                    \<longrightarrow> stripe_calls (snd (remove_subscription e i requesterId isAdmin w))
                          = stripe_calls w))
       \<and> (\<forall>res w'. remove_subscription e i requesterId isAdmin w = (res, w')
          \<longrightarrow> (\<exists>cs. stripe_calls w' = stripe_calls w @ cs \<and> list_all cancel_or_invoice cs)
              \<and> (res = Inr () \<longrightarrow> filter (\<lambda>r. row_id r = i) (subscriptions w') = []))"
proof -
  have denied: "\<not> isAdmin \<and> user_id sub = requesterId \<and> status sub \<noteq> Canceled
                 \<and> status sub \<noteq> Expired
          \<longrightarrow> remove_subscription e i requesterId isAdmin w
                = (Inl (BadRequestException
                          ''Only canceled or expired subscriptions can be deleted''), w1)"
    using remove_denied [OF found] by blast
  have permitted: "isAdmin \<or> (user_id sub = requesterId
                                  \<and> (status sub = Canceled \<or> status sub = Expired))
          \<longrightarrow> remove_subscription e i requesterId isAdmin w
                = (if external_id sub \<noteq> None \<and> status sub \<noteq> Canceled
                   then (case cancel e i requesterId
                                \<lparr> cancel_reason_dto = Some ''Deleted via API'',
                                  cancel_stripe_invoice_url_dto = None \<rparr> isAdmin w1 of
                           (Inl err, w2) \<Rightarrow> (Inl err, w2)
                         | (Inr canceled, w2) \<Rightarrow> deleteRow e i w2)
                   else deleteRow e i w1)
              \<and> (\<forall>stripeId. external_id sub = Some stripeId \<and> status sub \<noteq> Canceled
                    \<longrightarrow> (\<exists>cs. stripe_calls (snd (remove_subscription e i requesterId isAdmin w))
                                 = stripe_calls w @ SubscriptionsCancel stripeId False False # cs
                              \<and> list_all cancel_or_invoice cs))
              \<and> (external_id sub = None \<or> status sub = Canceled
                    \<longrightarrow> stripe_calls (snd (remove_subscription e i requesterId isAdmin w))
                          = stripe_calls w)"
    using remove_permitted [OF found, of isAdmin requesterId e]
      remove_cancel_first [OF found, of isAdmin requesterId _ e]
      remove_without_cancel [OF found, of isAdmin requesterId e]
    by blast
  have always: "\<forall>res w'. remove_subscription e i requesterId isAdmin w = (res, w')
          \<longrightarrow> (\<exists>cs. stripe_calls w' = stripe_calls w @ cs \<and> list_all cancel_or_invoice cs)
              \<and> (res = Inr () \<longrightarrow> filter (\<lambda>r. row_id r = i) (subscriptions w') = [])"
    using calls_addedD [OF calls_added_remove] remove_deleted by blast
  show ?thesis
    using denied permitted always by blast
qed

theorem remove_rules_witness:
  "remove_subscription example_env id_a user_u False
       (example_world [example_row id_a user_u (Some ''sub_1'') Active])
     = (Inl (BadRequestException ''Only canceled or expired subscriptions can be deleted''),
        (example_world [example_row id_a user_u (Some ''sub_1'') Active])
          \<lparr>db_ops := [DbSelect subscriptions_table]\<rparr>)
   \<and> fst (remove_subscription example_env id_a user_v True
            (example_world [example_row id_a user_u (Some ''sub_1'') Active])) = Inr ()
   \<and> filter (\<lambda>r. row_id r = id_a)
        (subscriptions (snd (remove_subscription example_env id_a user_v True
            (example_world [example_row id_a user_u (Some ''sub_1'') Active])))) = []
   \<and> hd (stripe_calls (snd (remove_subscription example_env id_a user_v True
            (example_world [example_row id_a user_u (Some ''sub_1'') Active]))))
       = SubscriptionsCancel ''sub_1'' False False
   \<and> list_all cancel_or_invoice
        (stripe_calls (snd (remove_subscription example_env id_a user_v True
            (example_world [example_row id_a user_u (Some ''sub_1'') Active]))))
   \<and> remove_subscription example_env id_a user_u False
       (example_world [example_row id_a user_u None Expired])
     = (Inr (),
        (example_world [])
          \<lparr>db_ops := [DbSelect subscriptions_table, DbDelete subscriptions_table]\<rparr>)"
proof -
  let ?row = "example_row id_a user_u (Some ''sub_1'') Active"
  let ?w = "example_world [?row]"
  let ?w1 = "?w\<lparr>db_ops := [DbSelect subscriptions_table]\<rparr>"
  let ?local = "example_row id_a user_u None Expired"
  let ?dto = "\<lparr> cancel_reason_dto = Some ''Deleted via API'',
                cancel_stripe_invoice_url_dto = None \<rparr>"
  have found: "getById id_a ?w = (Inr ?row, ?w1)"
    using example_getById [where u = user_u and x = "Some ''sub_1''" and st = Active and ops = "[]"]
    by (simp add: example_world_def)
  have found_local: "getById id_a (example_world [?local])
      = (Inr ?local, (example_world [?local])\<lparr>db_ops := [DbSelect subscriptions_table]\<rparr>)"
    using example_getById [where u = user_u and x = None and st = Expired and ops = "[]"]
    by (simp add: example_world_def)
  have denied: "remove_subscription example_env id_a user_u False ?w
     = (Inl (BadRequestException ''Only canceled or expired subscriptions can be deleted''), ?w1)"
    using remove_rules [OF found, where isAdmin = False and requesterId = user_u and e = example_env]
    by (simp add: example_row_def)
  obtain r w2 where canceled: "cancel example_env id_a user_v ?dto True ?w1 = (Inr r, w2)"
    using example_cancel
    by (cases "cancel example_env id_a user_v ?dto True ?w1"; cases "fst (cancel example_env id_a user_v ?dto True ?w1)") auto
  have run: "remove_subscription example_env id_a user_v True ?w = deleteRow example_env id_a w2"
    using remove_rules [OF found, where isAdmin = True and requesterId = user_v and e = example_env] canceled
    by (simp add: example_row_def external_id_def)
  have ok: "fst (remove_subscription example_env id_a user_v True ?w) = Inr ()"
    unfolding run by (simp add: deleteRow_eq example_env_def)
  note inst = remove_rules [OF found, where isAdmin = True and requesterId = user_v
      and e = example_env]
  have ext: "external_id ?row = Some ''sub_1'' \<and> status ?row \<noteq> Canceled"
    by (simp add: example_row_def external_id_def)
  have first: "\<exists>cs. stripe_calls (snd (remove_subscription example_env id_a user_v True ?w))
                   = stripe_calls ?w @ SubscriptionsCancel ''sub_1'' False False # cs
                 \<and> list_all cancel_or_invoice cs"
    using inst ext by blast
  have "remove_subscription example_env id_a user_v True ?w
          = (Inr (), snd (remove_subscription example_env id_a user_v True ?w))"
    using ok by (simp add: prod_eq_iff)
  with inst have deleted: "filter (\<lambda>r. row_id r = id_a)
        (subscriptions (snd (remove_subscription example_env id_a user_v True ?w))) = []"
    by blast
  have calls: "hd (stripe_calls (snd (remove_subscription example_env id_a user_v True ?w)))
                 = SubscriptionsCancel ''sub_1'' False False
               \<and> list_all cancel_or_invoice
                   (stripe_calls (snd (remove_subscription example_env id_a user_v True ?w)))"
    using first by (auto simp add: example_world_def cancel_or_invoice_def)
  have local: "remove_subscription example_env id_a user_u False (example_world [?local])
     = (Inr (), (example_world [])
          \<lparr>db_ops := [DbSelect subscriptions_table, DbDelete subscriptions_table]\<rparr>)"
    using remove_rules [OF found_local, where isAdmin = False and requesterId = user_u and e = example_env]
    by (simp add: example_row_def external_id_def deleteRow_eq example_env_def example_world_def
        delete_rows_def)
  show ?thesis
    using denied ok deleted calls local by simp
qed

subsection \<open>C3: one active subscription per user\<close>

text \<open>
  C3 as stated fails: only \<^verbatim>\<open>create\<close> checks that the user holds no active-like or paused
  subscription. Reconciliation writes whatever the gateway reports. Here the gateway reports
  two active subscriptions \<^verbatim>\<open>sub_1\<close> and \<^verbatim>\<open>sub_2\<close> of one customer, each with a line item
  whose price is named \<^verbatim>\<open>pro\<close> and with metadata that name the same user; the two snapshots
  are reconciled one after the other into an empty table. Both calls return normally, and the
  table then holds two rows of that user, both active, each with every \<^verbatim>\<open>NOT NULL\<close> column
  filled (\<^verbatim>\<open>user_id\<close>, \<^verbatim>\<open>plan\<close>), with different ids and different external ids.
\<close>

theorem two_active_rows_of_one_user:
  "fst (syncFromStripe example_env (priced_snapshot ''sub_1'') empty_obj (example_world []))
     = Inr ()
   \<and> fst (syncFromStripe example_env (priced_snapshot ''sub_2'') empty_obj
        (snd (syncFromStripe example_env (priced_snapshot ''sub_1'') empty_obj
                (example_world []))))
     = Inr ()
   \<and> map user_id (subscriptions
     (snd (syncFromStripe example_env (priced_snapshot ''sub_2'') empty_obj
        (snd (syncFromStripe example_env (priced_snapshot ''sub_1'') empty_obj
                (example_world []))))))
     = [user_u, user_u]
   \<and> map status (subscriptions
     (snd (syncFromStripe example_env (priced_snapshot ''sub_2'') empty_obj
        (snd (syncFromStripe example_env (priced_snapshot ''sub_1'') empty_obj
                (example_world []))))))
     = [Active, Active]
   \<and> map plan (subscriptions
     (snd (syncFromStripe example_env (priced_snapshot ''sub_2'') empty_obj
        (snd (syncFromStripe example_env (priced_snapshot ''sub_1'') empty_obj
                (example_world []))))))
     = [Some ''pro'', Some ''pro'']
   \<and> map stripe_subscription_id (subscriptions
     (snd (syncFromStripe example_env (priced_snapshot ''sub_2'') empty_obj
        (snd (syncFromStripe example_env (priced_snapshot ''sub_1'') empty_obj
                (example_world []))))))
     = [Some ''sub_1'', Some ''sub_2'']
   \<and> map row_id (subscriptions
     (snd (syncFromStripe example_env (priced_snapshot ''sub_2'') empty_obj
        (snd (syncFromStripe example_env (priced_snapshot ''sub_1'') empty_obj
                (example_world []))))))
     = [id_b, id_c]"
  by (simp add: syncFromStripe_eq sync_target_def by_stripe_subscription_id_def
      stripeCustomerId_def priced_snapshot_def example_snapshot_def resolved_user_def
      user_u_def example_world_def
      maybeSingle_def dates_in_range_def in_date_range_def upsert_eq sync_selects_def
      plan_selects_def first_price_def invoice_calls_def truthy_def example_env_def
      customer_mapping_user_def metadata_user_id_def insert_row_def apply_updates_def put_def
      default_row_def sync_payload_at_def syncPayload_def sync_plan_def plan_by_price_def
      coalesce_def mapStripeStatus_def Let_def)

text \<open>
  C3, amended. Whenever the target user (the user named in the request, else the caller)
  holds a row whose status is active, trialing, past_due, unpaid, incomplete or paused,
  \<^verbatim>\<open>create\<close> fails and writes nothing: the tables and the gateway log are as before. The
  error is the \<^verbatim>\<open>BadRequestException\<close> \<^verbatim>\<open>An active subscription already exists for this user\<close>
  once the two earlier checks have passed (the target is a valid identifier, and the caller is
  an administrator or the target), and then the one datastore operation is the lookup of the
  user's rows. This is a check of \<^verbatim>\<open>create\<close> alone, not an invariant of the table.
\<close>

theorem create_rejects_holder:
  assumes holds: "r \<in> set (subscriptions w)" "user_id r = target"
                 "status r \<in> set (ACTIVE_STATUSES @ [Paused])"
      and target: "target = (case dto_user_id dto of Some u \<Rightarrow> u | None \<Rightarrow> requester_id req)"
  shows "create e req dto isAdmin w
           = (if \<not> isValidUUID target
              then (Inl (BadRequestException ''Invalid user identifier''), w)
              else if \<not> isAdmin \<and> target \<noteq> requester_id req
              then (Inl (ForbiddenException
                           ''You are not allowed to create subscriptions for other users''), w)
              else (Inl (BadRequestException
                           ''An active subscription already exists for this user''),
                    w\<lparr>db_ops := db_ops w @ [DbSelect subscriptions_table]\<rparr>))"
proof -
  have blocked: "io_bind (ensureUserCanStartNew target) f w
      = (Inl (BadRequestException ''An active subscription already exists for this user''),
         w\<lparr>db_ops := db_ops w @ [DbSelect subscriptions_table]\<rparr>)" for f :: "unit \<Rightarrow> subscription io"
    by (simp only: io_bind_apply [where m = "ensureUserCanStartNew target",
          OF ensureUserCanStartNew_blocked [OF holds]] sum.case)
  show ?thesis
    unfolding create_def Let_def target [symmetric]
    by (simp only: if_distribR blocked io_throw_apply)
qed

theorem create_rejects_holder_witness:
  "example_row id_a user_u None Paused
     \<in> set (subscriptions (example_world [example_row id_a user_u None Paused]))
   \<and> create example_env example_requester example_create False
        (example_world [example_row id_a user_u None Paused])
     = (Inl (BadRequestException ''An active subscription already exists for this user''),
        (example_world [example_row id_a user_u None Paused])
          \<lparr>db_ops := [DbSelect subscriptions_table]\<rparr>)
   \<and> create example_env example_requester (example_create\<lparr>dto_user_id := Some user_u\<rparr>) True
        (example_world [example_row id_a user_u (Some ''sub_1'') Unpaid])
     = (Inl (BadRequestException ''An active subscription already exists for this user''),
        (example_world [example_row id_a user_u (Some ''sub_1'') Unpaid])
          \<lparr>db_ops := [DbSelect subscriptions_table]\<rparr>)"
  using create_rejects_holder [where r = "example_row id_a user_u None Paused"
      and w = "example_world [example_row id_a user_u None Paused]" and target = user_u
      and dto = example_create and req = example_requester and e = example_env
      and isAdmin = False]
    create_rejects_holder [where r = "example_row id_a user_u (Some ''sub_1'') Unpaid"
      and w = "example_world [example_row id_a user_u (Some ''sub_1'') Unpaid]"
      and target = user_u and dto = "example_create\<lparr>dto_user_id := Some user_u\<rparr>"
      and req = example_requester and e = example_env and isAdmin = True]
    valid_user_u
  by (simp add: example_world_def example_row_def example_requester_def example_create_def
      ACTIVE_STATUSES_def)

subsection \<open>C1: reconciling the same snapshot twice\<close>




end
